theory Spec2Isabelle
  imports Main "HOL-Library.Char_ord" "HOL-Library.List_Lexorder"
begin

section \<open>The cpit client: strings, integers and query parameters\<close>

text \<open>
  The client library lives in \<^verbatim>\<open>cpit.go\<close>, which holds two snapshots of the package.
  The second snapshot (generic operations, \<^verbatim>\<open>ErrNotFound\<close>, \<^verbatim>\<open>dataWrapper\<close>) is the
  one embedded under the source's own names. The request executor of the first snapshot
  (\<^verbatim>\<open>getBodyReader\<close> and its \<^verbatim>\<open>doHttp\<close>) is embedded under names ending in \<open>_1\<close>.

  A Go \<^verbatim>\<open>string\<close> is a byte sequence and is modelled as a \<^typ>\<open>string\<close>. A Go \<^verbatim>\<open>int\<close>
  is modelled as an \<^typ>\<open>int\<close>: the library only compares these values with constants and
  renders them in decimal, so no arithmetic can wrap.
\<close>

subsection \<open>Package \<^verbatim>\<open>strings\<close>\<close>

definition HasSuffix :: "string \<Rightarrow> string \<Rightarrow> bool" where
  "HasSuffix s suffix =
     (length suffix \<le> length s \<and> drop (length s - length suffix) s = suffix)"

definition TrimSuffix :: "string \<Rightarrow> string \<Rightarrow> string" where
  "TrimSuffix s suffix =
     (if HasSuffix s suffix then take (length s - length suffix) s else s)"

definition HasPrefix :: "string \<Rightarrow> string \<Rightarrow> bool" where
  "HasPrefix s prefix = (length prefix \<le> length s \<and> take (length prefix) s = prefix)"

definition TrimPrefix :: "string \<Rightarrow> string \<Rightarrow> string" where
  "TrimPrefix s prefix = (if HasPrefix s prefix then drop (length prefix) s else s)"

subsection \<open>\<^verbatim>\<open>strconv.Itoa\<close>\<close>

definition digit :: "nat \<Rightarrow> char" where
  "digit n = ''0123456789'' ! (n mod 10)"

fun FormatUint :: "nat \<Rightarrow> string" where
  "FormatUint n = (if n < 10 then [digit n] else FormatUint (n div 10) @ [digit (n mod 10)])"

declare FormatUint.simps [simp del]

definition Itoa :: "int \<Rightarrow> string" where
  "Itoa i = (if i < 0 then CHR ''-'' # FormatUint (nat (- i)) else FormatUint (nat i))"

text \<open>
  The value a string of decimal digits denotes. It is not part of the library: it states
  what "decimal rendering" means for the results of \<^const>\<open>Itoa\<close>.
\<close>

definition decimal_value :: "string \<Rightarrow> nat" where
  "decimal_value s = foldl (\<lambda>a c. 10 * a + (of_char c - 48)) 0 s"

subsection \<open>\<^verbatim>\<open>url.Values\<close>\<close>

text \<open>
  \<^verbatim>\<open>url.Values\<close> is a Go map from keys to lists of values. It is modelled as an association
  list. \<^verbatim>\<open>Set\<close> replaces the entry of a key by the one-element list, \<^verbatim>\<open>Has\<close> tests the
  key, and \<^verbatim>\<open>Encode\<close> visits the keys in sorted order and writes one \<^verbatim>\<open>key=value\<close> segment
  for each value, with \<^verbatim>\<open>&\<close> between segments. \<^verbatim>\<open>url.QueryEscape\<close> is a parameter.
\<close>

type_synonym Values = "(string \<times> string list) list"

fun Values_Set :: "Values \<Rightarrow> string \<Rightarrow> string \<Rightarrow> Values" where
  "Values_Set [] key v = [(key, [v])]"
| "Values_Set ((k, vs) # ps) key v =
     (if k = key then (key, [v]) # ps else (k, vs) # Values_Set ps key v)"

definition Values_Has :: "Values \<Rightarrow> string \<Rightarrow> bool" where
  "Values_Has ps key = (key \<in> set (map fst ps))"

definition Values_pairs :: "Values \<Rightarrow> (string \<times> string) list" where
  "Values_pairs ps = concat (map (\<lambda>(k, vs). map (\<lambda>v. (k, v)) vs) (sort_key fst ps))"

fun join_amp :: "string list \<Rightarrow> string" where
  "join_amp [] = []"
| "join_amp [s] = s"
| "join_amp (s # t # ss) = s @ ''&'' @ join_amp (t # ss)"

definition Values_Encode :: "(string \<Rightarrow> string) \<Rightarrow> Values \<Rightarrow> string" where
  "Values_Encode escape ps =
     join_amp (map (\<lambda>(k, v). escape k @ ''='' @ escape v) (Values_pairs ps))"

section \<open>Errors, HTTP messages and collaborators\<close>

text \<open>
  \<open>ErrNotFound\<close> is the package's sentinel. \<open>Errorf\<close> is an error made by \<^verbatim>\<open>errors.New\<close> or
  \<^verbatim>\<open>fmt.Errorf\<close> with the given message, \<open>Wrapped\<close> one made by \<^verbatim>\<open>fmt.Errorf\<close> with
  \<^verbatim>\<open>": %w"\<close> after the given prefix, and \<open>Foreign\<close> an error of a collaborator (transport,
  JSON codec, \<^verbatim>\<open>net/http\<close>) with its message.
\<close>

datatype error = ErrNotFound | Errorf string | Wrapped string error | Foreign string

fun Error :: "error \<Rightarrow> string" where
  "Error ErrNotFound = ''not found''"
| "Error (Errorf msg) = msg"
| "Error (Wrapped p e) = p @ '': '' @ Error e"
| "Error (Foreign msg) = msg"

record request =
  Method :: string
  URL :: string
  Header :: "(string \<times> string) list"
  Body :: string

record response =
  StatusCode :: int
  RespBody :: string

text \<open>
  What \<^verbatim>\<open>http.Client.Do\<close> returns: a response, an error, or both (a failed redirect
  check). It never returns neither.
\<close>

datatype do_result = DoOk response | DoErr error | DoBoth response error

type_synonym client = "request \<Rightarrow> do_result"

text \<open>
  The collaborators outside the package: the process-wide \<^verbatim>\<open>http.DefaultClient\<close>,
  \<^verbatim>\<open>json.Marshal\<close> on the caller's data, \<^verbatim>\<open>url.QueryEscape\<close>, \<^verbatim>\<open>http.StatusText\<close>, and the
  error \<^verbatim>\<open>http.NewRequestWithContext\<close> gives for a method and URL, if any.
\<close>

record 'd env =
  DefaultClient :: "client option"
  Marshal :: "'d \<Rightarrow> error + string"
  QueryEscape :: "string \<Rightarrow> string"
  StatusText :: "int \<Rightarrow> string"
  NewRequestError :: "string \<Rightarrow> string \<Rightarrow> error option"

text \<open>What a call did besides returning: the requests it sent and the debug records it logged.\<close>

record effects =
  sent :: "request list"
  logged :: "string list"

definition no_effects :: effects where
  "no_effects = \<lparr>sent = [], logged = []\<rparr>"

section \<open>Requests, defaults and options\<close>

datatype 'd dataWrapper = dataWrapper (Data: 'd)

text \<open>
  The request in progress. The field \<^verbatim>\<open>method\<close> of the source is \<open>req_method\<close> here, since
  the source's name is a reserved word of the theory language.
\<close>

record 'd cockpitReq =
  httpClient :: "client option"
  apiKey :: string
  baseURL :: string
  req_method :: string
  path :: string
  params :: Values
  body :: "'d dataWrapper option"
  debug :: bool

type_synonym 'd optionFn = "'d cockpitReq \<Rightarrow> error option \<times> 'd cockpitReq"

record defaults =
  defaultHttpClient :: "client option"
  defaultBaseUrl :: string
  defaultApiKey :: string
  defaultDebugMode :: bool

definition SetDefaultHttpClient :: "client option \<Rightarrow> defaults \<Rightarrow> defaults" where
  "SetDefaultHttpClient c d = d\<lparr>defaultHttpClient := c\<rparr>"

definition SetDefaultBaseUrl :: "string \<Rightarrow> defaults \<Rightarrow> defaults" where
  "SetDefaultBaseUrl url d = d\<lparr>defaultBaseUrl := TrimSuffix url ''/''\<rparr>"

definition SetDefaultApiKey :: "string \<Rightarrow> defaults \<Rightarrow> defaults" where
  "SetDefaultApiKey key d = d\<lparr>defaultApiKey := key\<rparr>"

definition SetDefaultDebugMode :: "bool \<Rightarrow> defaults \<Rightarrow> defaults" where
  "SetDefaultDebugMode enabled d = d\<lparr>defaultDebugMode := enabled\<rparr>"

definition newCockpitReq :: "defaults \<Rightarrow> 'd cockpitReq" where
  "newCockpitReq d =
     \<lparr>httpClient = defaultHttpClient d, apiKey = defaultApiKey d, baseURL = defaultBaseUrl d,
      req_method = [], path = [], params = [], body = None, debug = defaultDebugMode d\<rparr>"

fun applyOptions :: "'d cockpitReq \<Rightarrow> 'd optionFn list \<Rightarrow> error option \<times> 'd cockpitReq" where
  "applyOptions r [] = (None, r)"
| "applyOptions r (opt # opts) =
     (case opt r of
        (Some err, r') \<Rightarrow> (Some err, r')
      | (None, r') \<Rightarrow> applyOptions r' opts)"

definition WithHttpClient :: "client option \<Rightarrow> 'd optionFn" where
  "WithHttpClient c r = (None, r\<lparr>httpClient := c\<rparr>)"

definition WithBaseURL :: "string \<Rightarrow> 'd optionFn" where
  "WithBaseURL url r =
     (if url = [] then (Some (Errorf ''url is required''), r)
      else (None, r\<lparr>baseURL := TrimSuffix url ''/''\<rparr>))"

definition WithApiKey :: "string \<Rightarrow> 'd optionFn" where
  "WithApiKey key r =
     (if key = [] then (Some (Errorf ''apikey is required''), r)
      else (None, r\<lparr>apiKey := key\<rparr>))"

definition WithDebugMode :: "bool \<Rightarrow> 'd optionFn" where
  "WithDebugMode enabled r = (None, r\<lparr>debug := enabled\<rparr>)"

definition WithResizeMode :: "string \<Rightarrow> 'd optionFn" where
  "WithResizeMode m r =
     (if m \<noteq> ''thumbnail'' \<and> m \<noteq> ''bestFit'' \<and> m \<noteq> ''resize'' \<and> m \<noteq> ''fitToWidth''
         \<and> m \<noteq> ''fitToHeight''
      then (Some (Errorf ''invalid resize mode''), r)
      else (None, r\<lparr>params := Values_Set (params r) ''m'' m\<rparr>))"

definition WithWidth :: "int \<Rightarrow> 'd optionFn" where
  "WithWidth w r =
     (if w < 1 then (Some (Errorf ''width must be greater than 0''), r)
      else (None, r\<lparr>params := Values_Set (params r) ''w'' (Itoa w)\<rparr>))"

definition WithHeight :: "int \<Rightarrow> 'd optionFn" where
  "WithHeight h r =
     (if h < 1 then (Some (Errorf ''height must be greater than 0''), r)
      else (None, r\<lparr>params := Values_Set (params r) ''h'' (Itoa h)\<rparr>))"

definition WithQuality :: "int \<Rightarrow> 'd optionFn" where
  "WithQuality q r =
     (if q < 1 \<or> q > 100 then (Some (Errorf ''quality must be between 1 and 100''), r)
      else (None, r\<lparr>params := Values_Set (params r) ''q'' (Itoa q)\<rparr>))"

definition WithMime :: "string \<Rightarrow> 'd optionFn" where
  "WithMime mime r =
     (if mime \<noteq> ''auto'' \<and> mime \<noteq> ''gif'' \<and> mime \<noteq> ''jpeg'' \<and> mime \<noteq> ''png''
         \<and> mime \<noteq> ''webp'' \<and> mime \<noteq> ''bmp''
      then (Some (Errorf ''invalid mime type''), r)
      else (None, r\<lparr>params := Values_Set (params r) ''mime'' mime\<rparr>))"

definition WithLocale :: "string \<Rightarrow> 'd optionFn" where
  "WithLocale locale r = (None, r\<lparr>params := Values_Set (params r) ''locale'' locale\<rparr>)"

definition WithFields :: "string \<Rightarrow> 'd optionFn" where
  "WithFields flds r = (None, r\<lparr>params := Values_Set (params r) ''fields'' flds\<rparr>)"

definition WithFilter :: "string \<Rightarrow> 'd optionFn" where
  "WithFilter fltr r = (None, r\<lparr>params := Values_Set (params r) ''filter'' fltr\<rparr>)"

definition WithSort :: "string \<Rightarrow> 'd optionFn" where
  "WithSort srt r = (None, r\<lparr>params := Values_Set (params r) ''sort'' srt\<rparr>)"

definition WithLimit :: "int \<Rightarrow> 'd optionFn" where
  "WithLimit limit r =
     (if limit < 1 then (Some (Errorf ''limit must be greater than 0''), r)
      else (None, r\<lparr>params := Values_Set (params r) ''limit'' (Itoa limit)\<rparr>))"

definition WithSkip :: "int \<Rightarrow> 'd optionFn" where
  "WithSkip skip r =
     (if skip < 0 then (Some (Errorf ''skip must be greater than or equal to 0''), r)
      else (None, r\<lparr>params := Values_Set (params r) ''skip'' (Itoa skip)\<rparr>))"

definition WithPopulate :: "bool \<Rightarrow> 'd optionFn" where
  "WithPopulate enabled r =
     (let v = (if enabled then ''1'' else ''0'')
      in (None, r\<lparr>params := Values_Set (params r) ''populate'' v\<rparr>))"

text \<open>
  The type \<^verbatim>\<open>optionFn\<close> and the request it takes are unexported, so a caller outside the
  package obtains options from the exported constructors only.
\<close>

definition exported_options :: "'d optionFn set" where
  "exported_options =
     range WithHttpClient \<union> range WithBaseURL \<union> range WithApiKey \<union> range WithDebugMode
     \<union> range WithResizeMode \<union> range WithWidth \<union> range WithHeight \<union> range WithQuality
     \<union> range WithMime \<union> range WithLocale \<union> range WithFields \<union> range WithFilter
     \<union> range WithSort \<union> range WithLimit \<union> range WithSkip \<union> range WithPopulate"

section \<open>Executing a request\<close>

text \<open>
  \<^verbatim>\<open>json.NewEncoder(body).Encode(r.body)\<close> on the \<^verbatim>\<open>dataWrapper\<close> that \<^verbatim>\<open>UpsertItem\<close> stores. The
  struct has the single field \<^verbatim>\<open>Data\<close> with the tag \<^verbatim>\<open>json:"data"\<close>, so its encoding is an
  object with the one member \<^verbatim>\<open>data\<close>, whose value is the encoding of the caller's data;
  \<^verbatim>\<open>Encode\<close> writes a newline after the value.
\<close>

definition Encoder_Encode :: "'d env \<Rightarrow> 'd dataWrapper \<Rightarrow> error + string" where
  \<open>Encoder_Encode env w =
     (case Marshal env (Data w) of
        Inl err \<Rightarrow> Inl err
      | Inr s \<Rightarrow> Inr (''{"data":'' @ s @ ''}'' @ [CHR 0x0A]))\<close>

definition doHttp :: "'d env \<Rightarrow> 'd cockpitReq \<Rightarrow> do_result \<times> effects" where
  "doHttp env r =
     (if apiKey r = [] then
        (DoErr (Errorf ''apiKey is required. either set it as default or pass it as an option''),
         no_effects)
      else if baseURL r = [] then
        (DoErr (Errorf ''baseURL is required. either set it as default or pass it as an option''),
         no_effects)
      else
        (case (case httpClient r of None \<Rightarrow> DefaultClient env | Some c \<Rightarrow> Some c) of
           None \<Rightarrow>
             (DoErr (Errorf
                ''httpClient is required. either set it as default or pass it as an option''),
              no_effects)
         | Some c \<Rightarrow>
             (case (case body r of None \<Rightarrow> Inr [] | Some w \<Rightarrow> Encoder_Encode env w) of
                Inl err \<Rightarrow> (DoErr (Wrapped ''failed to encode body'' err), no_effects)
              | Inr b \<Rightarrow>
                  (let url = baseURL r @ path r @ ''?''
                             @ Values_Encode (QueryEscape env) (params r)
                   in case NewRequestError env (req_method r) url of
                        Some err \<Rightarrow> (DoErr err, no_effects)
                      | None \<Rightarrow>
                          (let req = \<lparr>Method = req_method r, URL = url,
                                      Header = [(''Api-Key'', apiKey r),
                                                (''Content-Type'', ''application/json'')],
                                      Body = b\<rparr>;
                               res = c req;
                               (sc, txt) =
                                 (case res of
                                    DoOk resp \<Rightarrow>
                                      (Itoa (StatusCode resp) @ '' ''
                                         @ StatusText env (StatusCode resp),
                                       RespBody resp)
                                  | DoErr err \<Rightarrow> (''ERROR'', Error err)
                                  | DoBoth resp err \<Rightarrow> (''ERROR'', Error err))
                           in (res,
                               \<lparr>sent = [req],
                                logged =
                                  (if debug r then
                                     [''[Cockpit]['' @ sc @ ''] '' @ req_method r @ '' '' @ url
                                        @ '' | '' @ txt @ [CHR 0x0A]]
                                   else [])\<rparr>))))))"

text \<open>
  The output target of \<^verbatim>\<open>run\<close> is \<open>None\<close> for \<^verbatim>\<open>nil\<close>, and otherwise the JSON decoder of the
  variable the caller points to. The result is \<open>Inr None\<close> when nothing was decoded, so that
  the caller's variable keeps its value, and \<open>Inr (Some v)\<close> when \<open>v\<close> was decoded into it.
\<close>

definition run ::
  "'d env \<Rightarrow> 'd cockpitReq \<Rightarrow> (string \<Rightarrow> error + 'o) option \<Rightarrow> (error + 'o option) \<times> effects"
where
  "run env r output =
     (case doHttp env r of
        (DoErr err, fx) \<Rightarrow> (Inl err, fx)
      | (DoBoth resp err, fx) \<Rightarrow> (Inl err, fx)
      | (DoOk resp, fx) \<Rightarrow>
          (if StatusCode resp = 404 then (Inl ErrNotFound, fx)
           else if StatusCode resp \<noteq> 200 then
             (Inl (Errorf (''unexpected status code '' @ Itoa (StatusCode resp) @ '' ''
                           @ StatusText env (StatusCode resp) @ '': '' @ RespBody resp)), fx)
           else
             (case output of
                None \<Rightarrow> (Inr None, fx)
              | Some decode \<Rightarrow>
                  (case decode (RespBody resp) of
                     Inl err \<Rightarrow> (Inl err, fx)
                   | Inr v \<Rightarrow> (Inr (Some v), fx)))))"

definition runImage :: "'d env \<Rightarrow> 'd cockpitReq \<Rightarrow> (error + string) \<times> effects" where
  "runImage env r =
     (case doHttp env r of
        (DoErr err, fx) \<Rightarrow> (Inl err, fx)
      | (DoBoth resp err, fx) \<Rightarrow> (Inl err, fx)
      | (DoOk resp, fx) \<Rightarrow>
          (if StatusCode resp = 404 then (Inl ErrNotFound, fx)
           else if StatusCode resp \<noteq> 200 then
             (Inl (Errorf (''unexpected status code '' @ Itoa (StatusCode resp) @ '' ''
                           @ StatusText env (StatusCode resp) @ '': '' @ RespBody resp)), fx)
           else (Inr (RespBody resp), fx)))"

section \<open>The operations\<close>

record 'a Items =
  Items_Data :: "'a list"
  Meta_Total :: int

text \<open>
  \<^verbatim>\<open>Asset\<close> embeds \<^verbatim>\<open>BaseModel\<close>. The elements of \<^verbatim>\<open>Tags\<close> have the type \<^verbatim>\<open>any\<close>; their type is a
  parameter. \<open>zero_Asset\<close> is the value of a declared and unassigned \<^verbatim>\<open>Asset\<close> variable.
\<close>

record BaseModel =
  ID :: string
  State :: int
  Modified :: int
  ModifiedBy :: string
  Created :: int
  CreatedBy :: string

record 't Asset = BaseModel +
  Hash :: string
  Thumbhash :: string
  Path :: string
  Title :: string
  Mime :: string
  Type :: string
  Description :: string
  Tags :: "'t list"
  Size :: int
  Colors :: "string list"
  Width :: int
  Height :: int
  Folder :: string

definition zero_Asset :: "'t Asset" where
  "zero_Asset =
     \<lparr>ID = [], State = 0, Modified = 0, ModifiedBy = [], Created = 0, CreatedBy = [],
      Hash = [], Thumbhash = [], Path = [], Title = [], Mime = [], Type = [],
      Description = [], Tags = [], Size = 0, Colors = [], Width = 0, Height = 0,
      Folder = []\<rparr>"

text \<open>
  A type parameter \<^verbatim>\<open>T\<close> of an operation is given by the zero value of \<^verbatim>\<open>T\<close> and by the JSON
  decoder into a variable of type \<^verbatim>\<open>T\<close>. \<^verbatim>\<open>GetItems\<close> decodes into \<^verbatim>\<open>Items[T]\<close> or into
  \<^verbatim>\<open>[]T\<close>, and takes the decoder of each.
\<close>

definition GetItems ::
  "'d env \<Rightarrow> defaults \<Rightarrow> (string \<Rightarrow> error + 'a Items) \<Rightarrow> (string \<Rightarrow> error + 'a list) \<Rightarrow> string
     \<Rightarrow> 'd optionFn list \<Rightarrow> (error + 'a Items) \<times> effects"
where
  "GetItems env d decode_Items decode_slice model opts =
     (case applyOptions ((newCockpitReq d)\<lparr>req_method := ''GET'',
                                            path := ''/content/items/'' @ model\<rparr>) opts of
        (Some err, r) \<Rightarrow> (Inl err, no_effects)
      | (None, r) \<Rightarrow>
          (if Values_Has (params r) ''skip'' \<and> Values_Has (params r) ''limit'' then
             (case run env r (Some decode_Items) of
                (Inl err, fx) \<Rightarrow> (Inl err, fx)
              | (Inr out, fx) \<Rightarrow>
                  (Inr (case out of None \<Rightarrow> \<lparr>Items_Data = [], Meta_Total = 0\<rparr> | Some v \<Rightarrow> v),
                   fx))
           else
             (case run env r (Some decode_slice) of
                (Inl err, fx) \<Rightarrow> (Inl err, fx)
              | (Inr out, fx) \<Rightarrow>
                  (Inr \<lparr>Items_Data = (case out of None \<Rightarrow> [] | Some v \<Rightarrow> v), Meta_Total = 0\<rparr>,
                   fx))))"

definition GetSingleton ::
  "'d env \<Rightarrow> defaults \<Rightarrow> 'o \<Rightarrow> (string \<Rightarrow> error + 'o) \<Rightarrow> string \<Rightarrow> 'd optionFn list
     \<Rightarrow> (error + 'o) \<times> effects"
where
  "GetSingleton env d zero decode model opts =
     (case applyOptions ((newCockpitReq d)\<lparr>req_method := ''GET'',
                                            path := ''/content/item/'' @ model\<rparr>) opts of
        (Some err, r) \<Rightarrow> (Inl err, no_effects)
      | (None, r) \<Rightarrow>
          (case run env r (Some decode) of
             (Inl err, fx) \<Rightarrow> (Inl err, fx)
           | (Inr out, fx) \<Rightarrow> (Inr (case out of None \<Rightarrow> zero | Some v \<Rightarrow> v), fx)))"

definition GetAsset ::
  "'d env \<Rightarrow> defaults \<Rightarrow> (string \<Rightarrow> error + 't Asset) \<Rightarrow> string \<Rightarrow> 'd optionFn list
     \<Rightarrow> (error + 't Asset) \<times> effects"
where
  "GetAsset env d decode_Asset ident opts =
     (case applyOptions ((newCockpitReq d)\<lparr>req_method := ''GET'', path := ''/assets/'' @ ident\<rparr>)
             opts of
        (Some err, r) \<Rightarrow> (Inl err, no_effects)
      | (None, r) \<Rightarrow>
          (case run env r (Some decode_Asset) of
             (Inl err, fx) \<Rightarrow> (Inl err, fx)
           | (Inr out, fx) \<Rightarrow> (Inr (case out of None \<Rightarrow> zero_Asset | Some v \<Rightarrow> v), fx)))"

definition GetAssetLink :: "defaults \<Rightarrow> string \<Rightarrow> 'd optionFn list \<Rightarrow> (error + string) \<times> effects"
where
  "GetAssetLink d ident opts =
     (case applyOptions ((newCockpitReq d)\<lparr>req_method := ''GET'', path := ''/assets/'' @ ident\<rparr>)
             opts of
        (Some err, r) \<Rightarrow> (Inl err, no_effects)
      | (None, r) \<Rightarrow>
          (let baseUrl = TrimSuffix (baseURL r) ''/api''
           in (Inr (baseUrl @ ''/assets/link/'' @ ident), no_effects)))"

definition GetUploadLink :: "defaults \<Rightarrow> string \<Rightarrow> 'd optionFn list \<Rightarrow> (error + string) \<times> effects"
where
  "GetUploadLink d pth opts =
     (case applyOptions ((newCockpitReq d)\<lparr>req_method := ''GET'', path := ''/assets/'' @ pth\<rparr>)
             opts of
        (Some err, r) \<Rightarrow> (Inl err, no_effects)
      | (None, r) \<Rightarrow>
          (let baseUrl = TrimSuffix (baseURL r) ''/api'';
               pth' = TrimPrefix pth ''/''
           in (Inr (baseUrl @ ''/storage/uploads/'' @ pth'), no_effects)))"

definition GetImage ::
  "'d env \<Rightarrow> defaults \<Rightarrow> string \<Rightarrow> 'd optionFn list \<Rightarrow> (error + string) \<times> effects"
where
  "GetImage env d ident opts =
     (case applyOptions ((newCockpitReq d)\<lparr>req_method := ''GET'',
                                            path := ''/assets/image/'' @ ident\<rparr>) opts of
        (Some err, r) \<Rightarrow> (Inl err, no_effects)
      | (None, r) \<Rightarrow> runImage env r)"

definition GetItem ::
  "'d env \<Rightarrow> defaults \<Rightarrow> 'o \<Rightarrow> (string \<Rightarrow> error + 'o) \<Rightarrow> string \<Rightarrow> string
     \<Rightarrow> 'd optionFn list \<Rightarrow> (error + 'o) \<times> effects"
where
  "GetItem env d zero decode model ident opts =
     (case applyOptions ((newCockpitReq d)\<lparr>req_method := ''GET'',
                                            path := ''/content/item/'' @ model @ ''/'' @ ident\<rparr>)
             opts of
        (Some err, r) \<Rightarrow> (Inl err, no_effects)
      | (None, r) \<Rightarrow>
          (case run env r (Some decode) of
             (Inl err, fx) \<Rightarrow> (Inl err, fx)
           | (Inr out, fx) \<Rightarrow> (Inr (case out of None \<Rightarrow> zero | Some v \<Rightarrow> v), fx)))"

definition UpsertItem ::
  "'d env \<Rightarrow> defaults \<Rightarrow> 'o \<Rightarrow> (string \<Rightarrow> error + 'o) \<Rightarrow> string \<Rightarrow> 'd \<Rightarrow> 'd optionFn list
     \<Rightarrow> (error + 'o) \<times> effects"
where
  "UpsertItem env d zero decode model data opts =
     (case applyOptions ((newCockpitReq d)\<lparr>req_method := ''POST'',
                                            path := ''/content/item/'' @ model,
                                            body := Some (dataWrapper data)\<rparr>) opts of
        (Some err, r) \<Rightarrow> (Inl err, no_effects)
      | (None, r) \<Rightarrow>
          (case run env r (Some decode) of
             (Inl err, fx) \<Rightarrow> (Inl err, fx)
           | (Inr out, fx) \<Rightarrow> (Inr (case out of None \<Rightarrow> zero | Some v \<Rightarrow> v), fx)))"

definition DeleteItem ::
  "'d env \<Rightarrow> defaults \<Rightarrow> string \<Rightarrow> string \<Rightarrow> 'd optionFn list \<Rightarrow> error option \<times> effects"
where
  "DeleteItem env d model ident opts =
     (case applyOptions ((newCockpitReq d)\<lparr>req_method := ''DELETE'',
                                            path := ''/content/item/'' @ model @ ''/'' @ ident\<rparr>)
             opts of
        (Some err, r) \<Rightarrow> (Some err, no_effects)
      | (None, r) \<Rightarrow>
          (case run env r (None :: (string \<Rightarrow> error + unit) option) of
             (Inl err, fx) \<Rightarrow> (Some err, fx)
           | (Inr out, fx) \<Rightarrow> (None, fx)))"

section \<open>The request executor of the first snapshot\<close>

text \<open>
  In the first snapshot the body of a request is whatever \<^verbatim>\<open>WithBody\<close> stored: nothing, an
  \<^verbatim>\<open>io.Reader\<close> (given by the bytes it yields), a byte slice, a string, or any other value,
  which is encoded as JSON. The fields \<^verbatim>\<open>output\<close> and \<^verbatim>\<open>outputHeader\<close> point to variables of
  the caller.
\<close>

datatype 'd payload = Reader string | Bytes string | Str string | Value 'd

record ('d, 'o, 'h) cockpitReq_1 =
  httpClient_1 :: "client option"
  apiKey_1 :: string
  baseURL_1 :: string
  method_1 :: string
  path_1 :: string
  params_1 :: Values
  body_1 :: "'d payload option"
  debug_1 :: bool
  output_1 :: "'o option"
  outputHeader_1 :: "'h option"
  isImage_1 :: bool

definition getBodyReader :: "'d env \<Rightarrow> 'd payload option \<Rightarrow> error + string option" where
  "getBodyReader env b =
     (case b of
        None \<Rightarrow> Inr None
      | Some (Reader s) \<Rightarrow> Inr (Some s)
      | Some (Bytes s) \<Rightarrow> Inr (Some s)
      | Some (Str s) \<Rightarrow> Inr (Some s)
      | Some (Value v) \<Rightarrow>
          (case Marshal env v of
             Inl err \<Rightarrow> Inl (Wrapped ''failed to encode body'' err)
           | Inr s \<Rightarrow> Inr (Some (s @ [CHR 0x0A]))))"

text \<open>
  The first snapshot does not test the client it ends up with: with neither a client on the
  request nor a default client, \<^verbatim>\<open>Do\<close> is called on a nil pointer. The result is \<open>None\<close> there.
\<close>

definition doHttp_1 ::
  "'d env \<Rightarrow> ('d, 'o, 'h) cockpitReq_1 \<Rightarrow> do_result option \<times> effects"
where
  "doHttp_1 env r =
     (if apiKey_1 r = [] then
        (Some (DoErr (Errorf
           ''apiKey is required. either set it as default or pass it as an option'')),
         no_effects)
      else if baseURL_1 r = [] then
        (Some (DoErr (Errorf
           ''baseURL is required. either set it as default or pass it as an option'')),
         no_effects)
      else
        (case getBodyReader env (body_1 r) of
           Inl err \<Rightarrow> (Some (DoErr err), no_effects)
         | Inr b \<Rightarrow>
             (if method_1 r = ''POST'' \<and> b = None then
                (Some (DoErr (Errorf ''body is required for upserting an item'')), no_effects)
              else
                (let url = baseURL_1 r @ path_1 r @ ''?''
                           @ Values_Encode (QueryEscape env) (params_1 r)
                 in case NewRequestError env (method_1 r) url of
                      Some err \<Rightarrow> (Some (DoErr err), no_effects)
                    | None \<Rightarrow>
                        (case (case httpClient_1 r of None \<Rightarrow> DefaultClient env
                                                    | Some c \<Rightarrow> Some c) of
                           None \<Rightarrow> (None, no_effects)
                         | Some c \<Rightarrow>
                             (let req = \<lparr>Method = method_1 r, URL = url,
                                         Header = [(''Api-Key'', apiKey_1 r)],
                                         Body = (case b of None \<Rightarrow> [] | Some s \<Rightarrow> s)\<rparr>;
                                  res = c req;
                                  (sc, txt) =
                                    (case res of
                                       DoOk resp \<Rightarrow>
                                         (Itoa (StatusCode resp) @ '' ''
                                            @ StatusText env (StatusCode resp),
                                          RespBody resp)
                                     | DoErr err \<Rightarrow> (''ERROR'', Error err)
                                     | DoBoth resp err \<Rightarrow> (''ERROR'', Error err))
                              in (Some res,
                                  \<lparr>sent = [req],
                                   logged =
                                     (if debug_1 r then
                                        [''[Cockpit]['' @ sc @ ''] '' @ method_1 r @ '' '' @ url
                                           @ '' | '' @ txt @ [CHR 0x0A]]
                                      else [])\<rparr>)))))))"

section \<open>Specification-level notions and example inputs\<close>

text \<open>
  The query parameters of a request built by the package: every key occurs once and carries
  exactly one value.
\<close>

definition wf_Values :: "Values \<Rightarrow> bool" where
  "wf_Values ps = (distinct (map fst ps) \<and> list_all (\<lambda>p. length (snd p) = 1) ps)"

text \<open>
  The debug record as the specification describes it: the status code and its text, or
  \<^verbatim>\<open>ERROR\<close> when the transport failed; the method; the URL; the response body, or the text of
  the transport's error. It has no argument for the API key.
\<close>

definition debug_record :: "'d env \<Rightarrow> do_result \<Rightarrow> string \<Rightarrow> string \<Rightarrow> string" where
  "debug_record env res m url =
     ''[Cockpit][''
     @ (case res of
          DoOk resp \<Rightarrow> Itoa (StatusCode resp) @ '' '' @ StatusText env (StatusCode resp)
        | DoErr err \<Rightarrow> ''ERROR''
        | DoBoth resp err \<Rightarrow> ''ERROR'')
     @ ''] '' @ m @ '' '' @ url @ '' | ''
     @ (case res of
          DoOk resp \<Rightarrow> RespBody resp
        | DoErr err \<Rightarrow> Error err
        | DoBoth resp err \<Rightarrow> Error err)
     @ [CHR 0x0A]"

text \<open>
  Example collaborators. The caller's data is given by its JSON text, the escape function
  leaves the plain keys and values of the examples alone, and every request can be built.
\<close>

definition ex_StatusText :: "int \<Rightarrow> string" where
  "ex_StatusText code =
     (if code = 200 then ''OK'' else if code = 401 then ''Unauthorized''
      else if code = 404 then ''Not Found''
      else if code = 500 then ''Internal Server Error'' else [])"

definition ex_env :: "string env" where
  "ex_env = \<lparr>DefaultClient = None, Marshal = Inr, QueryEscape = (\<lambda>s. s),
             StatusText = ex_StatusText, NewRequestError = (\<lambda>m u. None)\<rparr>"

definition ex_client :: "int \<Rightarrow> string \<Rightarrow> client" where
  "ex_client code txt req = DoOk \<lparr>StatusCode = code, RespBody = txt\<rparr>"

text \<open>A server that rejects every key and names the key it was given in its answer.\<close>

definition ex_echo_client :: client where
  "ex_echo_client req =
     DoOk \<lparr>StatusCode = 401,
           RespBody = ''invalid api key: ''
                      @ (case map_of (Header req) ''Api-Key'' of None \<Rightarrow> [] | Some k \<Rightarrow> k)\<rparr>"

definition ex_defaults :: "client \<Rightarrow> defaults" where
  "ex_defaults c =
     \<lparr>defaultHttpClient = Some c, defaultBaseUrl = ''https://x/api'',
      defaultApiKey = ''secret'', defaultDebugMode = True\<rparr>"

text \<open>
  Example decoders for a caller whose items are numbers: each knows the one body of its
  example and rejects any other.
\<close>

definition ex_decode_Items :: "string \<Rightarrow> error + nat Items" where
  \<open>ex_decode_Items b =
     (if b = ''{"data":[1,2],"meta":{"total":42}}''
      then Inr \<lparr>Items_Data = [1, 2], Meta_Total = 42\<rparr>
      else Inl (Foreign ''json: cannot unmarshal''))\<close>

definition ex_decode_slice :: "string \<Rightarrow> error + nat list" where
  "ex_decode_slice b =
     (if b = ''[1,2]'' then Inr [1, 2] else Inl (Foreign ''json: cannot unmarshal''))"

definition ex_decode_unit :: "string \<Rightarrow> error + unit" where
  "ex_decode_unit b = Inr ()"

definition ex_req_1 :: "string payload option \<Rightarrow> string \<Rightarrow> (string, unit, unit) cockpitReq_1"
where
  "ex_req_1 b m =
     \<lparr>httpClient_1 = Some (ex_client 200 ''{}''), apiKey_1 = ''secret'',
      baseURL_1 = ''https://x/api'', method_1 = m, path_1 = ''/content/item/posts'',
      params_1 = [], body_1 = b, debug_1 = False, output_1 = None, outputHeader_1 = None,
      isImage_1 = False\<rparr>"

section \<open>Decimal rendering and query parameters\<close>

lemmas option_defs =
  WithHttpClient_def WithBaseURL_def WithApiKey_def WithDebugMode_def WithResizeMode_def
  WithWidth_def WithHeight_def WithQuality_def WithMime_def WithLocale_def WithFields_def
  WithFilter_def WithSort_def WithLimit_def WithSkip_def WithPopulate_def

lemma decimal_value_snoc:
  "decimal_value (s @ [c]) = 10 * decimal_value s + (of_char c - 48)"
  by (simp add: decimal_value_def)

lemma digit_value: "d < 10 \<Longrightarrow> of_char (digit d) - 48 = d"
proof -
  assume "d < 10"
  then have "d \<in> {0, 1, 2, 3, 4, 5, 6, 7, 8, 9}" by auto
  then show ?thesis by (auto simp: digit_def)
qed

lemma decimal_value_FormatUint: "decimal_value (FormatUint n) = n"
proof (induction n rule: FormatUint.induct)
  case (1 n)
  show ?case
  proof (cases "n < 10")
    case True
    then show ?thesis
      using digit_value[of n] by (subst FormatUint.simps) (simp add: decimal_value_def)
  next
    case False
    then show ?thesis
      using 1 digit_value[of "n mod 10"]
      by (subst FormatUint.simps) (simp add: decimal_value_snoc)
  qed
qed

lemma decimal_value_Itoa: "0 \<le> i \<Longrightarrow> decimal_value (Itoa i) = nat i"
  by (simp add: Itoa_def decimal_value_FormatUint)

lemma map_of_Values_Set_same: "map_of (Values_Set ps k v) k = Some [v]"
  by (induction ps k v rule: Values_Set.induct) auto

lemma map_of_Values_Set_other: "k' \<noteq> k \<Longrightarrow> map_of (Values_Set ps k v) k' = map_of ps k'"
  by (induction ps k v rule: Values_Set.induct) auto

lemma Values_Set_twice: "Values_Set (Values_Set ps k a) k b = Values_Set ps k b"
  by (induction ps k a rule: Values_Set.induct) auto

lemma keys_Values_Set: "set (map fst (Values_Set ps k v)) = insert k (set (map fst ps))"
  by (induction ps k v rule: Values_Set.induct) auto

lemma Values_Has_Set: "Values_Has (Values_Set ps k v) k' = (k' = k \<or> Values_Has ps k')"
  unfolding Values_Has_def keys_Values_Set by auto

lemma distinct_Values_Set:
  "distinct (map fst ps) \<Longrightarrow> distinct (map fst (Values_Set ps k v))"
proof (induction ps k v rule: Values_Set.induct)
  case (1 key v)
  then show ?case by simp
next
  case (2 k vs ps key v)
  then show ?case
    using keys_Values_Set[of ps key v] by (auto simp del: set_map)
qed

lemma single_Values_Set:
  "list_all (\<lambda>p. length (snd p) = 1) ps \<Longrightarrow>
   list_all (\<lambda>p. length (snd p) = 1) (Values_Set ps k v)"
  by (induction ps k v rule: Values_Set.induct) auto

lemma wf_Values_Set: "wf_Values ps \<Longrightarrow> wf_Values (Values_Set ps k v)"
  unfolding wf_Values_def by (blast intro: distinct_Values_Set single_Values_Set)

lemma keys_of_single_valued:
  "list_all (\<lambda>p. length (snd p) = 1) qs \<Longrightarrow>
   map fst (concat (map (\<lambda>(k, vs). map (\<lambda>v. (k, v)) vs) qs)) = map fst qs"
proof (induction qs)
  case Nil
  then show ?case by simp
next
  case (Cons q qs)
  obtain k vs where q: "q = (k, vs)" by (cases q)
  with Cons.prems have "length vs = 1" by simp
  then obtain v where "vs = [v]" by (cases vs) auto
  with Cons q show ?case by simp
qed

lemma map_insort_key: "map f (insort_key f x xs) = insort (f x) (map f xs)"
  by (induction xs) auto

lemma map_sort_key: "map f (sort_key f xs) = sort (map f xs)"
  by (induction xs) (auto simp: map_insort_key)

lemma keys_Values_pairs:
  assumes "wf_Values ps"
  shows "map fst (Values_pairs ps) = sort (map fst ps)"
proof -
  have "list_all (\<lambda>p. length (snd p) = 1) (sort_key fst ps)"
    using assms by (simp add: wf_Values_def list_all_iff)
  then have "map fst (Values_pairs ps) = map fst (sort_key fst ps)"
    unfolding Values_pairs_def by (rule keys_of_single_valued)
  then show ?thesis by (simp add: map_sort_key)
qed

section \<open>Options\<close>

lemma exported_preserves:
  assumes "opt \<in> exported_options" and "opt r = (e, r')"
  shows "body r' = body r" and "req_method r' = req_method r" and "path r' = path r"
    and "wf_Values (params r) \<Longrightarrow> wf_Values (params r')"
    and "e \<noteq> None \<Longrightarrow> r' = r"
  using assms
  by (auto simp: exported_options_def option_defs Let_def wf_Values_Set split: if_splits)

text \<open>
  Claim C7. For every integer \<open>q\<close>, \<^verbatim>\<open>WithQuality(q)\<close> succeeds exactly when \<open>1 \<le> q \<le> 100\<close>.
  On success the request is the old one with the query parameter \<^verbatim>\<open>q\<close> set to the decimal
  rendering of \<open>q\<close>, every other key and field unchanged; otherwise it returns the
  validation error and leaves the request alone. The bounds 1 and 100 succeed, 0 and 101 fail.
\<close>

theorem WithQuality_accepts_1_to_100:
  fixes r :: "'d cockpitReq"
  shows "((fst (WithQuality q r) = None) = (1 \<le> q \<and> q \<le> 100))
    \<and> (1 \<le> q \<and> q \<le> 100 \<longrightarrow>
          snd (WithQuality q r) = r\<lparr>params := Values_Set (params r) ''q'' (Itoa q)\<rparr>
        \<and> map_of (params (snd (WithQuality q r))) ''q'' = Some [Itoa q]
        \<and> decimal_value (Itoa q) = nat q
        \<and> (\<forall>k. k \<noteq> ''q'' \<longrightarrow>
              map_of (params (snd (WithQuality q r))) k = map_of (params r) k))
    \<and> (\<not> (1 \<le> q \<and> q \<le> 100) \<longrightarrow>
          WithQuality q r = (Some (Errorf ''quality must be between 1 and 100''), r))
    \<and> fst (WithQuality 1 r) = None \<and> fst (WithQuality 100 r) = None
    \<and> fst (WithQuality 0 r) \<noteq> None \<and> fst (WithQuality 101 r) \<noteq> None"
  by (auto simp: WithQuality_def map_of_Values_Set_same map_of_Values_Set_other
        decimal_value_Itoa)

theorem WithQuality_accepts_1_to_100_witness:
  "(1::int) \<le> 50 \<and> (50::int) \<le> 100
   \<and> WithQuality 50 (newCockpitReq (ex_defaults (ex_client 200 [])) :: string cockpitReq)
       = (None, (newCockpitReq (ex_defaults (ex_client 200 [])))\<lparr>params := [(''q'', [''50''])]\<rparr>)
   \<and> WithQuality 0 (newCockpitReq (ex_defaults (ex_client 200 [])) :: string cockpitReq)
       = (Some (Errorf ''quality must be between 1 and 100''),
          newCockpitReq (ex_defaults (ex_client 200 [])))"
  using WithQuality_accepts_1_to_100
          [of 50 "newCockpitReq (ex_defaults (ex_client 200 [])) :: string cockpitReq"]
        WithQuality_accepts_1_to_100
          [of 0 "newCockpitReq (ex_defaults (ex_client 200 [])) :: string cockpitReq"]
  by (simp add: WithQuality_def newCockpitReq_def Itoa_def FormatUint.simps digit_def)

section \<open>The base URL\<close>

lemma TrimSuffix_slash:
  "TrimSuffix u ''/'' = (if u \<noteq> [] \<and> last u = CHR ''/'' then butlast u else u)"
proof (cases u rule: rev_cases)
  case Nil
  then show ?thesis by (simp add: TrimSuffix_def HasSuffix_def)
next
  case (snoc ys y)
  then show ?thesis by (simp add: TrimSuffix_def HasSuffix_def)
qed

text \<open>
  Claim C5. For every string \<open>u\<close>, \<^verbatim>\<open>SetDefaultBaseUrl(u)\<close> stores \<open>u\<close> without its trailing
  slash, if it has one, and a request made by \<^verbatim>\<open>newCockpitReq\<close> afterwards carries that value:
  after \<^verbatim>\<open>SetDefaultBaseUrl("https://x/")\<close> the base URL is \<^verbatim>\<open>https://x\<close>. The option
  \<^verbatim>\<open>WithBaseURL\<close> strips a non-empty argument the same way.
\<close>

theorem base_url_trailing_slash_stripped:
  fixes r :: "'d cockpitReq"
  shows "baseURL (newCockpitReq (SetDefaultBaseUrl u d) :: 'd cockpitReq)
           = (if u \<noteq> [] \<and> last u = CHR ''/'' then butlast u else u)
    \<and> (u \<noteq> [] \<longrightarrow>
          WithBaseURL u r
            = (None, r\<lparr>baseURL := (if last u = CHR ''/'' then butlast u else u)\<rparr>))
    \<and> baseURL (newCockpitReq (SetDefaultBaseUrl ''https://x/'' d) :: 'd cockpitReq)
         = ''https://x''"
  by (simp add: newCockpitReq_def SetDefaultBaseUrl_def WithBaseURL_def TrimSuffix_slash)

theorem base_url_trailing_slash_stripped_witness:
  "''https://x/'' \<noteq> []
   \<and> baseURL (newCockpitReq (SetDefaultBaseUrl ''https://x/'' (ex_defaults (ex_client 200 [])))
        :: string cockpitReq) = ''https://x''
   \<and> WithBaseURL ''https://x/'' (newCockpitReq (ex_defaults (ex_client 200 [])))
       = (None, (newCockpitReq (ex_defaults (ex_client 200 [])) :: string cockpitReq)
                  \<lparr>baseURL := ''https://x''\<rparr>)"
  using base_url_trailing_slash_stripped
          [where u = "''https://x/''" and d = "ex_defaults (ex_client 200 [])"
             and r = "newCockpitReq (ex_defaults (ex_client 200 [])) :: string cockpitReq"]
  by simp

section \<open>Applying options\<close>

lemma applyOptions_append:
  "applyOptions r (pre @ post) =
     (case applyOptions r pre of
        (Some err, r') \<Rightarrow> (Some err, r')
      | (None, r') \<Rightarrow> applyOptions r' post)"
  by (induction pre arbitrary: r) (auto split: prod.splits option.splits)

lemma applyOptions_single: "applyOptions r [opt] = opt r"
  by (cases "opt r") (auto split: option.splits)

text \<open>
  Claim C4. Options are applied in the order given, each to the request its predecessors
  left: after a prefix that succeeds, the remaining options are applied to the request the
  prefix produced, and a single option is applied as it is. When the options before \<open>opt\<close>
  succeed and \<open>opt\<close> returns an error, \<^verbatim>\<open>applyOptions\<close> returns that error together with the
  request as \<open>opt\<close> left it, whatever options follow: none of them is applied. Every operation
  then returns that error and sends and logs nothing.
\<close>

theorem applyOptions_stops_at_first_error:
  assumes "applyOptions r pre = (None, r1)" and "opt r1 = (Some err, r2)"
  shows "applyOptions r (pre @ opt # post) = (Some err, r2)
    \<and> applyOptions r (pre @ rest) = applyOptions r1 rest
    \<and> applyOptions r1 [] = (None, r1)
    \<and> applyOptions r1 [nxt] = nxt r1
    \<and> (r = (newCockpitReq d)\<lparr>req_method := ''GET'', path := ''/content/items/'' @ model\<rparr>
         \<longrightarrow> GetItems env d decode_Items decode_slice model (pre @ opt # post)
               = (Inl err, no_effects))
    \<and> (r = (newCockpitReq d)\<lparr>req_method := ''GET'', path := ''/content/item/'' @ model\<rparr>
         \<longrightarrow> GetSingleton env d zero decode model (pre @ opt # post) = (Inl err, no_effects))
    \<and> (r = (newCockpitReq d)\<lparr>req_method := ''GET'', path := ''/assets/'' @ ident\<rparr>
         \<longrightarrow> GetAsset env d decode_Asset ident (pre @ opt # post) = (Inl err, no_effects)
           \<and> GetAssetLink d ident (pre @ opt # post) = (Inl err, no_effects)
           \<and> GetUploadLink d ident (pre @ opt # post) = (Inl err, no_effects))
    \<and> (r = (newCockpitReq d)\<lparr>req_method := ''GET'', path := ''/assets/image/'' @ ident\<rparr>
         \<longrightarrow> GetImage env d ident (pre @ opt # post) = (Inl err, no_effects))
    \<and> (r = (newCockpitReq d)\<lparr>req_method := ''GET'',
                               path := ''/content/item/'' @ model @ ''/'' @ ident\<rparr>
         \<longrightarrow> GetItem env d zero decode model ident (pre @ opt # post) = (Inl err, no_effects))
    \<and> (r = (newCockpitReq d)\<lparr>req_method := ''POST'', path := ''/content/item/'' @ model,
                               body := Some (dataWrapper data)\<rparr>
         \<longrightarrow> UpsertItem env d zero decode model data (pre @ opt # post)
               = (Inl err, no_effects))
    \<and> (r = (newCockpitReq d)\<lparr>req_method := ''DELETE'',
                               path := ''/content/item/'' @ model @ ''/'' @ ident\<rparr>
         \<longrightarrow> DeleteItem env d model ident (pre @ opt # post) = (Some err, no_effects))"
proof -
  have stop: "applyOptions r (pre @ opt # post) = (Some err, r2)"
    using assms by (simp add: applyOptions_append)
  have seq: "applyOptions r (pre @ rest) = applyOptions r1 rest"
    using assms(1) by (simp add: applyOptions_append)
  have one: "applyOptions r1 [nxt] = nxt r1" by (rule applyOptions_single)
  from stop seq one show ?thesis
    by (auto simp: GetItems_def GetSingleton_def GetAsset_def GetAssetLink_def GetUploadLink_def
          GetImage_def GetItem_def UpsertItem_def DeleteItem_def)
qed

theorem applyOptions_stops_at_first_error_witness:
  "applyOptions ((newCockpitReq (ex_defaults (ex_client 200 [])) :: string cockpitReq)
                   \<lparr>req_method := ''GET'', path := ''/assets/image/'' @ ''7''\<rparr>)
     [WithWidth 10]
     = (None, (newCockpitReq (ex_defaults (ex_client 200 [])))
                \<lparr>req_method := ''GET'', path := ''/assets/image/'' @ ''7'',
                 params := [(''w'', [''10''])]\<rparr>)
   \<and> WithQuality 0 ((newCockpitReq (ex_defaults (ex_client 200 [])) :: string cockpitReq)
                       \<lparr>req_method := ''GET'', path := ''/assets/image/'' @ ''7'',
                        params := [(''w'', [''10''])]\<rparr>)
     = (Some (Errorf ''quality must be between 1 and 100''),
        (newCockpitReq (ex_defaults (ex_client 200 [])))
          \<lparr>req_method := ''GET'', path := ''/assets/image/'' @ ''7'',
           params := [(''w'', [''10''])]\<rparr>)
   \<and> applyOptions ((newCockpitReq (ex_defaults (ex_client 200 [])) :: string cockpitReq)
                   \<lparr>req_method := ''GET'', path := ''/assets/image/'' @ ''7''\<rparr>)
       ([WithWidth 10] @ WithQuality 0 # [WithHeight 5])
     = (Some (Errorf ''quality must be between 1 and 100''),
        (newCockpitReq (ex_defaults (ex_client 200 [])))
          \<lparr>req_method := ''GET'', path := ''/assets/image/'' @ ''7'',
           params := [(''w'', [''10''])]\<rparr>)
   \<and> applyOptions ((newCockpitReq (ex_defaults (ex_client 200 [])) :: string cockpitReq)
                   \<lparr>req_method := ''GET'', path := ''/assets/image/'' @ ''7''\<rparr>)
       ([WithWidth 10] @ [WithHeight 5])
     = (None, (newCockpitReq (ex_defaults (ex_client 200 [])))
                \<lparr>req_method := ''GET'', path := ''/assets/image/'' @ ''7'',
                 params := [(''w'', [''10'']), (''h'', [''5''])]\<rparr>)
   \<and> GetImage ex_env (ex_defaults (ex_client 200 [])) ''7''
       ([WithWidth 10] @ WithQuality 0 # [WithHeight 5])
     = (Inl (Errorf ''quality must be between 1 and 100''), no_effects)"
proof -
  let ?d = "ex_defaults (ex_client 200 [])"
  let ?r = "(newCockpitReq ?d :: string cockpitReq)
              \<lparr>req_method := ''GET'', path := ''/assets/image/'' @ ''7''\<rparr>"
  let ?r1 = "(newCockpitReq ?d :: string cockpitReq)
              \<lparr>req_method := ''GET'', path := ''/assets/image/'' @ ''7'',
               params := [(''w'', [''10''])]\<rparr>"
  let ?e = "Errorf ''quality must be between 1 and 100''"
  have i10: "Itoa 10 = ''10''" and i5: "Itoa 5 = ''5''"
    by (simp_all add: Itoa_def FormatUint.simps digit_def)
  have pre: "applyOptions ?r [WithWidth 10] = (None, ?r1)"
    by (simp add: WithWidth_def newCockpitReq_def i10)
  have bad: "WithQuality 0 ?r1 = (Some ?e, ?r1)"
    by (simp add: WithQuality_def)
  note th = applyOptions_stops_at_first_error
              [where opt = "WithQuality 0" and post = "[WithHeight 5]"
                 and rest = "[WithHeight 5]" and nxt = "WithHeight 5" and env = ex_env
                 and d = ?d and ident = "''7''", OF pre bad]
  have stop: "applyOptions ?r ([WithWidth 10] @ WithQuality 0 # [WithHeight 5]) = (Some ?e, ?r1)"
    by (rule th[THEN conjunct1])
  have "applyOptions ?r ([WithWidth 10] @ [WithHeight 5]) = WithHeight 5 ?r1"
    using th[THEN conjunct2, THEN conjunct1]
          th[THEN conjunct2, THEN conjunct2, THEN conjunct2, THEN conjunct1]
    by simp
  then have seq: "applyOptions ?r ([WithWidth 10] @ [WithHeight 5])
                    = (None, ?r1\<lparr>params := [(''w'', [''10'']), (''h'', [''5''])]\<rparr>)"
    by (simp add: WithHeight_def i5)
  have img: "GetImage ex_env ?d ''7'' ([WithWidth 10] @ WithQuality 0 # [WithHeight 5])
               = (Inl ?e, no_effects)"
    using th[THEN conjunct2, THEN conjunct2, THEN conjunct2, THEN conjunct2, THEN conjunct2,
             THEN conjunct2, THEN conjunct2, THEN conjunct1]
    by simp
  from pre bad stop seq img show ?thesis by simp
qed

section \<open>Links and repeated query options\<close>

lemma TrimSuffix_append: "TrimSuffix (x @ suffix) suffix = x"
  by (simp add: TrimSuffix_def HasSuffix_def)

lemma TrimSuffix_other: "\<not> HasSuffix s suffix \<Longrightarrow> TrimSuffix s suffix = s"
  by (simp add: TrimSuffix_def)

lemma TrimPrefix_append: "TrimPrefix (prefix @ x) prefix = x"
  by (simp add: TrimPrefix_def HasPrefix_def)

lemma TrimPrefix_other: "\<not> HasPrefix s prefix \<Longrightarrow> TrimPrefix s prefix = s"
  by (simp add: TrimPrefix_def)

text \<open>
  Claim C9. \<^verbatim>\<open>GetAssetLink(id)\<close> returns the base URL of the request, with a suffix \<^verbatim>\<open>/api\<close>
  removed, followed by \<^verbatim>\<open>/assets/link/\<close> and the id; \<^verbatim>\<open>GetUploadLink(path)\<close> returns it
  followed by \<^verbatim>\<open>/storage/uploads/\<close> and the path with a leading slash removed. Neither sends a
  request. The base URL is that of the request once the options are applied, the default
  one when no option overrides it.
\<close>

theorem asset_links_from_base_url:
  assumes "applyOptions ((newCockpitReq d)\<lparr>req_method := ''GET'', path := ''/assets/'' @ i\<rparr>)
             opts = (None, r)"
    and "applyOptions ((newCockpitReq d)\<lparr>req_method := ''GET'', path := ''/assets/'' @ p\<rparr>)
             opts = (None, r')"
  shows "GetAssetLink d i opts
           = (Inr (TrimSuffix (baseURL r) ''/api'' @ ''/assets/link/'' @ i), no_effects)
    \<and> GetUploadLink d p opts
           = (Inr (TrimSuffix (baseURL r') ''/api'' @ ''/storage/uploads/''
                   @ TrimPrefix p ''/''), no_effects)
    \<and> sent (snd (GetAssetLink d i opts)) = [] \<and> sent (snd (GetUploadLink d p opts)) = []"
  using assms by (simp add: GetAssetLink_def GetUploadLink_def Let_def no_effects_def)

theorem asset_links_from_base_url_witness:
  "applyOptions ((newCockpitReq (ex_defaults (ex_client 200 [])) :: string cockpitReq)
                   \<lparr>req_method := ''GET'', path := ''/assets/'' @ ''a1''\<rparr>)
     [WithBaseURL ''https://cms.example/api/'']
     = (None, (newCockpitReq (ex_defaults (ex_client 200 [])))
                \<lparr>req_method := ''GET'', path := ''/assets/'' @ ''a1'',
                 baseURL := ''https://cms.example/api''\<rparr>)
   \<and> applyOptions ((newCockpitReq (ex_defaults (ex_client 200 [])) :: string cockpitReq)
                   \<lparr>req_method := ''GET'', path := ''/assets/'' @ ''/2024/pic.png''\<rparr>)
     [WithBaseURL ''https://cms.example/api/'']
     = (None, (newCockpitReq (ex_defaults (ex_client 200 [])))
                \<lparr>req_method := ''GET'', path := ''/assets/'' @ ''/2024/pic.png'',
                 baseURL := ''https://cms.example/api''\<rparr>)
   \<and> GetAssetLink (ex_defaults (ex_client 200 [])) ''a1''
        [WithBaseURL ''https://cms.example/api/'' :: string optionFn]
     = (Inr ''https://cms.example/assets/link/a1'', no_effects)
   \<and> GetUploadLink (ex_defaults (ex_client 200 [])) ''/2024/pic.png''
        [WithBaseURL ''https://cms.example/api/'' :: string optionFn]
     = (Inr ''https://cms.example/storage/uploads/2024/pic.png'', no_effects)"
proof -
  let ?d = "ex_defaults (ex_client 200 [])"
  let ?o = "WithBaseURL ''https://cms.example/api/'' :: string optionFn"
  have strip: "TrimSuffix ''https://cms.example/api/'' ''/'' = ''https://cms.example/api''"
    by (simp add: TrimSuffix_def HasSuffix_def)
  have a1: "applyOptions ((newCockpitReq ?d)\<lparr>req_method := ''GET'',
                                                path := ''/assets/'' @ ''a1''\<rparr>) [?o]
        = (None, (newCockpitReq ?d)\<lparr>req_method := ''GET'', path := ''/assets/'' @ ''a1'',
                                      baseURL := ''https://cms.example/api''\<rparr>)"
    unfolding applyOptions.simps WithBaseURL_def strip by simp
  have a2: "applyOptions ((newCockpitReq ?d)\<lparr>req_method := ''GET'',
                                                path := ''/assets/'' @ ''/2024/pic.png''\<rparr>) [?o]
        = (None, (newCockpitReq ?d)\<lparr>req_method := ''GET'',
                                      path := ''/assets/'' @ ''/2024/pic.png'',
                                      baseURL := ''https://cms.example/api''\<rparr>)"
    unfolding applyOptions.simps WithBaseURL_def strip by simp
  have t1: "TrimSuffix ''https://cms.example/api'' ''/api'' = ''https://cms.example''"
    by (simp add: TrimSuffix_def HasSuffix_def)
  have t2: "TrimPrefix ''/2024/pic.png'' ''/'' = ''2024/pic.png''"
    by (simp add: TrimPrefix_def HasPrefix_def)
  note links = asset_links_from_base_url [OF a1 a2]
  have l1: "GetAssetLink ?d ''a1'' [?o] = (Inr ''https://cms.example/assets/link/a1'', no_effects)"
    using links by (simp add: t1)
  have l2: "GetUploadLink ?d ''/2024/pic.png'' [?o]
              = (Inr ''https://cms.example/storage/uploads/2024/pic.png'', no_effects)"
    using links by (simp add: t1 t2)
  from a1 a2 l1 l2 show ?thesis by (intro conjI)
qed

lemma applyOptions_exported_wf:
  "set opts \<subseteq> exported_options \<Longrightarrow> applyOptions r opts = (e, r') \<Longrightarrow>
   wf_Values (params r) \<Longrightarrow> wf_Values (params r')"
proof (induction opts arbitrary: r)
  case Nil
  then show ?case by simp
next
  case (Cons opt opts)
  obtain e1 r1 where o: "opt r = (e1, r1)" by (cases "opt r")
  from Cons.prems(1) have ex: "opt \<in> exported_options" by simp
  have wf1: "wf_Values (params r1)"
    using exported_preserves(4)[OF ex o] Cons.prems(3) by simp
  show ?case
  proof (cases e1)
    case None
    with o Cons.prems(2) have "applyOptions r1 opts = (e, r')" by simp
    with Cons.IH[of r1] Cons.prems(1) wf1 show ?thesis by simp
  next
    case (Some err)
    with o Cons.prems(2) have "r' = r1" by simp
    with wf1 show ?thesis by simp
  qed
qed

text \<open>
  Claim C10. Each query-parameter option overwrites the value of its key: applying it with
  one accepted value and then with another leaves the request that applying it with the
  second value alone leaves. After any exported options applied to a request whose
  parameters are well formed, the encoded query names the keys in sorted order, each once.
\<close>

theorem query_options_overwrite:
  fixes r :: "'d cockpitReq"
  shows "(fst (WithResizeMode m1 r) = None \<and> fst (WithResizeMode m2 r) = None \<longrightarrow>
            applyOptions r [WithResizeMode m1, WithResizeMode m2] = applyOptions r [WithResizeMode m2])
    \<and> (fst (WithWidth w1 r) = None \<and> fst (WithWidth w2 r) = None \<longrightarrow>
            applyOptions r [WithWidth w1, WithWidth w2] = applyOptions r [WithWidth w2])
    \<and> (fst (WithHeight h1 r) = None \<and> fst (WithHeight h2 r) = None \<longrightarrow>
            applyOptions r [WithHeight h1, WithHeight h2] = applyOptions r [WithHeight h2])
    \<and> (fst (WithQuality q1 r) = None \<and> fst (WithQuality q2 r) = None \<longrightarrow>
            applyOptions r [WithQuality q1, WithQuality q2] = applyOptions r [WithQuality q2])
    \<and> (fst (WithMime t1 r) = None \<and> fst (WithMime t2 r) = None \<longrightarrow>
            applyOptions r [WithMime t1, WithMime t2] = applyOptions r [WithMime t2])
    \<and> applyOptions r [WithLocale l1, WithLocale l2] = applyOptions r [WithLocale l2]
    \<and> applyOptions r [WithFields f1, WithFields f2] = applyOptions r [WithFields f2]
    \<and> applyOptions r [WithFilter g1, WithFilter g2] = applyOptions r [WithFilter g2]
    \<and> applyOptions r [WithSort s1, WithSort s2] = applyOptions r [WithSort s2]
    \<and> (fst (WithLimit n1 r) = None \<and> fst (WithLimit n2 r) = None \<longrightarrow>
            applyOptions r [WithLimit n1, WithLimit n2] = applyOptions r [WithLimit n2])
    \<and> (fst (WithSkip k1 r) = None \<and> fst (WithSkip k2 r) = None \<longrightarrow>
            applyOptions r [WithSkip k1, WithSkip k2] = applyOptions r [WithSkip k2])
    \<and> applyOptions r [WithPopulate b1, WithPopulate b2] = applyOptions r [WithPopulate b2]
    \<and> (wf_Values (params r) \<and> set opts \<subseteq> exported_options \<and> applyOptions r opts = (None, r')
          \<longrightarrow> map fst (Values_pairs (params r')) = sort (map fst (params r'))
            \<and> distinct (map fst (Values_pairs (params r'))))"
proof -
  have enc: "wf_Values (params r) \<and> set opts \<subseteq> exported_options
             \<and> applyOptions r opts = (None, r')
          \<longrightarrow> map fst (Values_pairs (params r')) = sort (map fst (params r'))
            \<and> distinct (map fst (Values_pairs (params r')))"
  proof (intro impI, elim conjE)
    assume "wf_Values (params r)" "set opts \<subseteq> exported_options"
      "applyOptions r opts = (None, r')"
    then have wf: "wf_Values (params r')" by (rule applyOptions_exported_wf[rotated 2])
    then have "map fst (Values_pairs (params r')) = sort (map fst (params r'))"
      by (rule keys_Values_pairs)
    moreover from wf have "distinct (sort (map fst (params r')))"
      by (simp add: wf_Values_def)
    ultimately show "map fst (Values_pairs (params r')) = sort (map fst (params r'))
            \<and> distinct (map fst (Values_pairs (params r')))" by simp
  qed
  have "fst (WithResizeMode m1 r) = None \<and> fst (WithResizeMode m2 r) = None \<longrightarrow>
            applyOptions r [WithResizeMode m1, WithResizeMode m2] = applyOptions r [WithResizeMode m2]"
    by (auto simp: WithResizeMode_def Values_Set_twice split: if_splits)
  moreover have "fst (WithWidth w1 r) = None \<and> fst (WithWidth w2 r) = None \<longrightarrow>
            applyOptions r [WithWidth w1, WithWidth w2] = applyOptions r [WithWidth w2]"
    by (auto simp: WithWidth_def Values_Set_twice split: if_splits)
  moreover have "fst (WithHeight h1 r) = None \<and> fst (WithHeight h2 r) = None \<longrightarrow>
            applyOptions r [WithHeight h1, WithHeight h2] = applyOptions r [WithHeight h2]"
    by (auto simp: WithHeight_def Values_Set_twice split: if_splits)
  moreover have "fst (WithQuality q1 r) = None \<and> fst (WithQuality q2 r) = None \<longrightarrow>
            applyOptions r [WithQuality q1, WithQuality q2] = applyOptions r [WithQuality q2]"
    by (auto simp: WithQuality_def Values_Set_twice split: if_splits)
  moreover have "fst (WithMime t1 r) = None \<and> fst (WithMime t2 r) = None \<longrightarrow>
            applyOptions r [WithMime t1, WithMime t2] = applyOptions r [WithMime t2]"
    by (auto simp: WithMime_def Values_Set_twice split: if_splits)
  moreover have "applyOptions r [WithLocale l1, WithLocale l2] = applyOptions r [WithLocale l2]"
    by (simp add: WithLocale_def Values_Set_twice)
  moreover have "applyOptions r [WithFields f1, WithFields f2] = applyOptions r [WithFields f2]"
    by (simp add: WithFields_def Values_Set_twice)
  moreover have "applyOptions r [WithFilter g1, WithFilter g2] = applyOptions r [WithFilter g2]"
    by (simp add: WithFilter_def Values_Set_twice)
  moreover have "applyOptions r [WithSort s1, WithSort s2] = applyOptions r [WithSort s2]"
    by (simp add: WithSort_def Values_Set_twice)
  moreover have "fst (WithLimit n1 r) = None \<and> fst (WithLimit n2 r) = None \<longrightarrow>
            applyOptions r [WithLimit n1, WithLimit n2] = applyOptions r [WithLimit n2]"
    by (auto simp: WithLimit_def Values_Set_twice split: if_splits)
  moreover have "fst (WithSkip k1 r) = None \<and> fst (WithSkip k2 r) = None \<longrightarrow>
            applyOptions r [WithSkip k1, WithSkip k2] = applyOptions r [WithSkip k2]"
    by (auto simp: WithSkip_def Values_Set_twice split: if_splits)
  moreover have "applyOptions r [WithPopulate b1, WithPopulate b2]
                   = applyOptions r [WithPopulate b2]"
    by (simp add: WithPopulate_def Values_Set_twice)
  ultimately show ?thesis using enc by blast
qed


theorem query_options_overwrite_witness:
  "fst (WithLimit 10 (newCockpitReq (ex_defaults (ex_client 200 [])) :: string cockpitReq)) = None
   \<and> fst (WithLimit 20 (newCockpitReq (ex_defaults (ex_client 200 [])) :: string cockpitReq))
       = None
   \<and> applyOptions (newCockpitReq (ex_defaults (ex_client 200 [])) :: string cockpitReq)
        [WithLimit 10, WithLimit 20]
       = applyOptions (newCockpitReq (ex_defaults (ex_client 200 []))) [WithLimit 20]
   \<and> wf_Values (params (newCockpitReq (ex_defaults (ex_client 200 [])) :: string cockpitReq))
   \<and> set [WithLimit 10, WithSkip 0, WithLimit 20 :: string optionFn] \<subseteq> exported_options
   \<and> applyOptions (newCockpitReq (ex_defaults (ex_client 200 [])) :: string cockpitReq)
        [WithLimit 10, WithSkip 0, WithLimit 20]
       = (None, (newCockpitReq (ex_defaults (ex_client 200 [])))
                  \<lparr>params := [(''limit'', [''20'']), (''skip'', [''0''])]\<rparr>)
   \<and> distinct (map fst (Values_pairs [(''limit'', [''20'']), (''skip'', [''0''])]))
   \<and> Values_Encode (\<lambda>s. s) [(''limit'', [''20'']), (''skip'', [''0''])] = ''limit=20&skip=0''"
proof -
  let ?r = "newCockpitReq (ex_defaults (ex_client 200 [])) :: string cockpitReq"
  let ?opts = "[WithLimit 10, WithSkip 0, WithLimit 20 :: string optionFn]"
  let ?r' = "?r\<lparr>params := [(''limit'', [''20'']), (''skip'', [''0''])]\<rparr>"
  have v1: "fst (WithLimit 10 ?r) = None" by (simp add: WithLimit_def)
  have v2: "fst (WithLimit 20 ?r) = None" by (simp add: WithLimit_def)
  have wf: "wf_Values (params ?r)" by (simp add: newCockpitReq_def wf_Values_def)
  have ex: "set ?opts \<subseteq> exported_options" by (simp add: exported_options_def)
  have ap: "applyOptions ?r ?opts = (None, ?r')"
    by (simp add: WithLimit_def WithSkip_def newCockpitReq_def Itoa_def FormatUint.simps
          digit_def)
  note th = query_options_overwrite
              [where r = ?r and ?n1.0 = 10 and ?n2.0 = 20 and opts = ?opts and r' = ?r'
                 and ?m1.0 = "''resize''" and ?m2.0 = "''resize''" and ?w1.0 = 1 and ?w2.0 = 1
                 and ?h1.0 = 1 and ?h2.0 = 1 and ?q1.0 = 1 and ?q2.0 = 1
                 and ?t1.0 = "''png''" and ?t2.0 = "''png''" and ?l1.0 = "''en''"
                 and ?l2.0 = "''en''" and ?f1.0 = "[]" and ?f2.0 = "[]" and ?g1.0 = "[]"
                 and ?g2.0 = "[]" and ?s1.0 = "[]" and ?s2.0 = "[]" and ?k1.0 = 0
                 and ?k2.0 = 0 and ?b1.0 = True and ?b2.0 = True]
  have ow: "applyOptions ?r [WithLimit 10, WithLimit 20] = applyOptions ?r [WithLimit 20]"
    using th v1 v2 by blast
  have "distinct (map fst (Values_pairs (params ?r')))"
    using th wf ex ap by blast
  then have ks: "distinct (map fst (Values_pairs [(''limit'', [''20'']), (''skip'', [''0''])]))"
    by simp
  have enc: "Values_Encode (\<lambda>s. s) [(''limit'', [''20'']), (''skip'', [''0''])]
               = ''limit=20&skip=0''"
    by code_simp
  from v1 v2 ow wf ex ap ks enc show ?thesis by (intro conjI)
qed

section \<open>Status codes\<close>

lemma run_status_error:
  "doHttp env r = (DoOk resp, fx) \<Longrightarrow> StatusCode resp \<noteq> 200 \<Longrightarrow>
   run env r target
     = (Inl (if StatusCode resp = 404 then ErrNotFound
             else Errorf (''unexpected status code '' @ Itoa (StatusCode resp) @ '' ''
                          @ StatusText env (StatusCode resp) @ '': '' @ RespBody resp)), fx)"
  by (simp add: run_def)

lemma runImage_status_error:
  "doHttp env r = (DoOk resp, fx) \<Longrightarrow> StatusCode resp \<noteq> 200 \<Longrightarrow>
   runImage env r
     = (Inl (if StatusCode resp = 404 then ErrNotFound
             else Errorf (''unexpected status code '' @ Itoa (StatusCode resp) @ '' ''
                          @ StatusText env (StatusCode resp) @ '': '' @ RespBody resp)), fx)"
  by (simp add: runImage_def)

lemma run_ok_no_target:
  "doHttp env r = (DoOk resp, fx) \<Longrightarrow> StatusCode resp = 200 \<Longrightarrow>
   run env r None = (Inr None, fx)"
  by (simp add: run_def)

text \<open>
  Claim C3. When the transport answers with a status other than 200, every operation that
  executes an HTTP call returns an error and no result: the sentinel \<^verbatim>\<open>ErrNotFound\<close> for the
  status 404, and otherwise an error whose message holds the status code, its status text
  and the raw response body, which is not the sentinel. So do \<^verbatim>\<open>run\<close> and \<^verbatim>\<open>runImage\<close>, through
  which the operations go. With the status 200 and no output target, \<^verbatim>\<open>run\<close> succeeds and
  decodes nothing, and so does \<^verbatim>\<open>DeleteItem\<close>, the operation without one.
\<close>

theorem status_codes_to_errors:
  fixes target :: "(string \<Rightarrow> error + 'o) option"
  assumes "doHttp env r = (DoOk resp, fx)"
    and "err = (if StatusCode resp = 404 then ErrNotFound
                else Errorf (''unexpected status code '' @ Itoa (StatusCode resp) @ '' ''
                             @ StatusText env (StatusCode resp) @ '': '' @ RespBody resp))"
  shows "(StatusCode resp \<noteq> 200 \<longrightarrow>
            run env r target = (Inl err, fx) \<and> runImage env r = (Inl err, fx)
          \<and> (applyOptions ((newCockpitReq d)\<lparr>req_method := ''GET'',
                                               path := ''/content/items/'' @ model\<rparr>) opts
                = (None, r)
               \<longrightarrow> GetItems env d decode_Items decode_slice model opts = (Inl err, fx))
          \<and> (applyOptions ((newCockpitReq d)\<lparr>req_method := ''GET'',
                                               path := ''/content/item/'' @ model\<rparr>) opts
                = (None, r)
               \<longrightarrow> GetSingleton env d zero decode model opts = (Inl err, fx))
          \<and> (applyOptions ((newCockpitReq d)\<lparr>req_method := ''GET'',
                                               path := ''/assets/'' @ ident\<rparr>) opts
                = (None, r)
               \<longrightarrow> GetAsset env d decode_Asset ident opts = (Inl err, fx))
          \<and> (applyOptions ((newCockpitReq d)\<lparr>req_method := ''GET'',
                                               path := ''/assets/image/'' @ ident\<rparr>) opts
                = (None, r)
               \<longrightarrow> GetImage env d ident opts = (Inl err, fx))
          \<and> (applyOptions ((newCockpitReq d)\<lparr>req_method := ''GET'',
                                 path := ''/content/item/'' @ model @ ''/'' @ ident\<rparr>) opts
                = (None, r)
               \<longrightarrow> GetItem env d zero decode model ident opts = (Inl err, fx))
          \<and> (applyOptions ((newCockpitReq d)\<lparr>req_method := ''POST'',
                                 path := ''/content/item/'' @ model,
                                 body := Some (dataWrapper data)\<rparr>) opts
                = (None, r)
               \<longrightarrow> UpsertItem env d zero decode model data opts = (Inl err, fx))
          \<and> (applyOptions ((newCockpitReq d)\<lparr>req_method := ''DELETE'',
                                 path := ''/content/item/'' @ model @ ''/'' @ ident\<rparr>) opts
                = (None, r)
               \<longrightarrow> DeleteItem env d model ident opts = (Some err, fx)))
    \<and> (StatusCode resp = 200 \<longrightarrow>
            run env r (None :: (string \<Rightarrow> error + 'o) option) = (Inr None, fx)
          \<and> (applyOptions ((newCockpitReq d)\<lparr>req_method := ''DELETE'',
                                 path := ''/content/item/'' @ model @ ''/'' @ ident\<rparr>) opts
                = (None, r)
               \<longrightarrow> DeleteItem env d model ident opts = (None, fx)))
    \<and> (StatusCode resp \<noteq> 404 \<longrightarrow> err \<noteq> ErrNotFound)
    \<and> (StatusCode resp = 404 \<longrightarrow> err = ErrNotFound)"
proof -
  note err = run_status_error [OF assms(1), folded assms(2)]
    runImage_status_error [OF assms(1), folded assms(2)]
  note ok = run_ok_no_target [OF assms(1)]
  have e4: "StatusCode resp = 404 \<longrightarrow> err = ErrNotFound"
    and e5: "StatusCode resp \<noteq> 404 \<longrightarrow> err \<noteq> ErrNotFound"
    using assms(2) by simp_all
  have bad: "StatusCode resp \<noteq> 200 \<longrightarrow>
            run env r target = (Inl err, fx) \<and> runImage env r = (Inl err, fx)"
    by (simp add: err)
  have ops: "StatusCode resp \<noteq> 200 \<Longrightarrow> applyOptions r0 opts = (None, r) \<Longrightarrow>
      (r0 = (newCockpitReq d)\<lparr>req_method := ''GET'', path := ''/content/items/'' @ model\<rparr>
         \<longrightarrow> GetItems env d decode_Items decode_slice model opts = (Inl err, fx))
    \<and> (r0 = (newCockpitReq d)\<lparr>req_method := ''GET'', path := ''/content/item/'' @ model\<rparr>
         \<longrightarrow> GetSingleton env d zero decode model opts = (Inl err, fx))
    \<and> (r0 = (newCockpitReq d)\<lparr>req_method := ''GET'', path := ''/assets/'' @ ident\<rparr>
         \<longrightarrow> GetAsset env d decode_Asset ident opts = (Inl err, fx))
    \<and> (r0 = (newCockpitReq d)\<lparr>req_method := ''GET'', path := ''/assets/image/'' @ ident\<rparr>
         \<longrightarrow> GetImage env d ident opts = (Inl err, fx))
    \<and> (r0 = (newCockpitReq d)\<lparr>req_method := ''GET'',
                                path := ''/content/item/'' @ model @ ''/'' @ ident\<rparr>
         \<longrightarrow> GetItem env d zero decode model ident opts = (Inl err, fx))
    \<and> (r0 = (newCockpitReq d)\<lparr>req_method := ''POST'', path := ''/content/item/'' @ model,
                                body := Some (dataWrapper data)\<rparr>
         \<longrightarrow> UpsertItem env d zero decode model data opts = (Inl err, fx))
    \<and> (r0 = (newCockpitReq d)\<lparr>req_method := ''DELETE'',
                                path := ''/content/item/'' @ model @ ''/'' @ ident\<rparr>
         \<longrightarrow> DeleteItem env d model ident opts = (Some err, fx))" for r0
    by (auto simp: err GetItems_def GetSingleton_def GetAsset_def GetImage_def GetItem_def
          UpsertItem_def DeleteItem_def)
  have del: "StatusCode resp = 200 \<longrightarrow>
            run env r (None :: (string \<Rightarrow> error + 'o) option) = (Inr None, fx)
          \<and> (applyOptions ((newCockpitReq d)\<lparr>req_method := ''DELETE'',
                                 path := ''/content/item/'' @ model @ ''/'' @ ident\<rparr>) opts
                = (None, r)
               \<longrightarrow> DeleteItem env d model ident opts = (None, fx))"
    by (auto simp: ok DeleteItem_def)
  from bad ops del e4 e5 show ?thesis by blast
qed


theorem status_codes_to_errors_witness:
  "doHttp ex_env ((newCockpitReq (ex_defaults (ex_client 404 ''gone'')))
                    \<lparr>req_method := ''DELETE'',
                     path := ''/content/item/'' @ ''posts'' @ ''/'' @ ''1''\<rparr>)
     = (DoOk \<lparr>StatusCode = 404, RespBody = ''gone''\<rparr>,
        snd (doHttp ex_env ((newCockpitReq (ex_defaults (ex_client 404 ''gone'')))
                    \<lparr>req_method := ''DELETE'',
                     path := ''/content/item/'' @ ''posts'' @ ''/'' @ ''1''\<rparr>)))
   \<and> applyOptions ((newCockpitReq (ex_defaults (ex_client 404 ''gone'')) :: string cockpitReq)
                    \<lparr>req_method := ''DELETE'',
                     path := ''/content/item/'' @ ''posts'' @ ''/'' @ ''1''\<rparr>) []
     = (None, (newCockpitReq (ex_defaults (ex_client 404 ''gone'')))
                    \<lparr>req_method := ''DELETE'',
                     path := ''/content/item/'' @ ''posts'' @ ''/'' @ ''1''\<rparr>)
   \<and> fst (DeleteItem ex_env (ex_defaults (ex_client 404 ''gone'')) ''posts'' ''1'' [])
     = Some ErrNotFound
   \<and> doHttp ex_env ((newCockpitReq (ex_defaults (ex_client 500 ''boom'')))
                    \<lparr>req_method := ''GET'', path := ''/assets/image/'' @ ''7''\<rparr>)
     = (DoOk \<lparr>StatusCode = 500, RespBody = ''boom''\<rparr>,
        snd (doHttp ex_env ((newCockpitReq (ex_defaults (ex_client 500 ''boom'')))
                    \<lparr>req_method := ''GET'', path := ''/assets/image/'' @ ''7''\<rparr>)))
   \<and> fst (GetImage ex_env (ex_defaults (ex_client 500 ''boom'')) ''7'' [])
     = Inl (Errorf ''unexpected status code 500 Internal Server Error: boom'')
   \<and> doHttp ex_env ((newCockpitReq (ex_defaults (ex_client 200 ''{}'')))
                    \<lparr>req_method := ''DELETE'',
                     path := ''/content/item/'' @ ''posts'' @ ''/'' @ ''1''\<rparr>)
     = (DoOk \<lparr>StatusCode = 200, RespBody = ''{}''\<rparr>,
        snd (doHttp ex_env ((newCockpitReq (ex_defaults (ex_client 200 ''{}'')))
                    \<lparr>req_method := ''DELETE'',
                     path := ''/content/item/'' @ ''posts'' @ ''/'' @ ''1''\<rparr>)))
   \<and> fst (DeleteItem ex_env (ex_defaults (ex_client 200 ''{}'')) ''posts'' ''1'' []) = None"
proof -
  let ?d4 = "ex_defaults (ex_client 404 ''gone'')"
  let ?d5 = "ex_defaults (ex_client 500 ''boom'')"
  let ?d2 = "ex_defaults (ex_client 200 ''{}'')"
  let ?r4 = "(newCockpitReq ?d4 :: string cockpitReq)
               \<lparr>req_method := ''DELETE'',
                path := ''/content/item/'' @ ''posts'' @ ''/'' @ ''1''\<rparr>"
  let ?r5 = "(newCockpitReq ?d5 :: string cockpitReq)
               \<lparr>req_method := ''GET'', path := ''/assets/image/'' @ ''7''\<rparr>"
  let ?r2 = "(newCockpitReq ?d2 :: string cockpitReq)
               \<lparr>req_method := ''DELETE'',
                path := ''/content/item/'' @ ''posts'' @ ''/'' @ ''1''\<rparr>"
  let ?asset = "(\<lambda>b. Inl (Foreign [])) :: string \<Rightarrow> error + unit Asset"
  have d4: "doHttp ex_env ?r4
              = (DoOk \<lparr>StatusCode = 404, RespBody = ''gone''\<rparr>, snd (doHttp ex_env ?r4))"
    by (simp add: doHttp_def ex_env_def ex_defaults_def ex_client_def newCockpitReq_def
          Let_def)
  have d5: "doHttp ex_env ?r5
              = (DoOk \<lparr>StatusCode = 500, RespBody = ''boom''\<rparr>, snd (doHttp ex_env ?r5))"
    by (simp add: doHttp_def ex_env_def ex_defaults_def ex_client_def newCockpitReq_def
          Let_def)
  have d2: "doHttp ex_env ?r2
              = (DoOk \<lparr>StatusCode = 200, RespBody = ''{}''\<rparr>, snd (doHttp ex_env ?r2))"
    by (simp add: doHttp_def ex_env_def ex_defaults_def ex_client_def newCockpitReq_def
          Let_def)
  have a4: "applyOptions ?r4 [] = (None, ?r4)" by simp
  have i500: "Itoa 500 = ''500''" by (simp add: Itoa_def FormatUint.simps digit_def)
  have c4: "fst (DeleteItem ex_env ?d4 ''posts'' ''1'' []) = Some ErrNotFound"
    using status_codes_to_errors
            [where target = "None :: (string \<Rightarrow> error + unit) option" and d = ?d4
               and opts = "[]" and model = "''posts''" and ident = "''1''"
               and decode_Items = ex_decode_Items and decode_slice = ex_decode_slice
               and zero = "()" and decode = ex_decode_unit and decode_Asset = ?asset
               and data = "[]", OF d4 refl]
    by simp
  have c5: "fst (GetImage ex_env ?d5 ''7'' [])
              = Inl (Errorf ''unexpected status code 500 Internal Server Error: boom'')"
    using status_codes_to_errors
            [where target = "None :: (string \<Rightarrow> error + unit) option" and d = ?d5
               and opts = "[]" and model = "''posts''" and ident = "''7''"
               and decode_Items = ex_decode_Items and decode_slice = ex_decode_slice
               and zero = "()" and decode = ex_decode_unit and decode_Asset = ?asset
               and data = "[]", OF d5 refl]
    by (simp add: i500 ex_env_def ex_StatusText_def)
  have c2: "fst (DeleteItem ex_env ?d2 ''posts'' ''1'' []) = None"
    using status_codes_to_errors
            [where target = "None :: (string \<Rightarrow> error + unit) option" and d = ?d2
               and opts = "[]" and model = "''posts''" and ident = "''1''"
               and decode_Items = ex_decode_Items and decode_slice = ex_decode_slice
               and zero = "()" and decode = ex_decode_unit and decode_Asset = ?asset
               and data = "[]", OF d2 refl]
    by simp
  from d4 a4 c4 d5 c5 d2 c2 show ?thesis by (intro conjI)
qed

section \<open>The debug record\<close>

lemma doHttp_sent_at_most_one: "length (sent (snd (doHttp env r))) \<le> 1"
  by (simp add: doHttp_def no_effects_def Let_def split: option.splits sum.splits prod.splits)

lemma doHttp_logged:
  "logged (snd (doHttp env r))
     = (if debug r \<and> sent (snd (doHttp env r)) \<noteq> [] then
          [debug_record env (fst (doHttp env r)) (req_method r)
             (baseURL r @ path r @ ''?'' @ Values_Encode (QueryEscape env) (params r))]
        else [])"
  by (simp add: doHttp_def debug_record_def no_effects_def Let_def
        split: option.splits sum.splits prod.splits do_result.splits)

lemma doHttp_sent_key:
  "k1 \<noteq> [] \<Longrightarrow> k2 \<noteq> [] \<Longrightarrow>
   (sent (snd (doHttp env (r\<lparr>apiKey := k1\<rparr>))) = [])
     = (sent (snd (doHttp env (r\<lparr>apiKey := k2\<rparr>))) = [])"
  by (simp add: doHttp_def no_effects_def Let_def
        split: option.splits sum.splits prod.splits)

text \<open>
  Claim C8, amended. A call logs one debug record when debug mode is on and the request was
  sent, and none otherwise. The record is made of the transport's result (status code and
  text, or \<^verbatim>\<open>ERROR\<close>), the method, the URL and the response body or the error's text; the API
  key is no part of how it is built. Two runs that differ only in their non-empty API keys,
  and to which the transport gives the same result, log the same record.
\<close>

theorem debug_record_independent_of_api_key:
  assumes "k1 \<noteq> []" and "k2 \<noteq> []"
    and "fst (doHttp env (r\<lparr>apiKey := k1\<rparr>)) = fst (doHttp env (r\<lparr>apiKey := k2\<rparr>))"
  shows "logged (snd (doHttp env (r\<lparr>apiKey := k1\<rparr>)))
           = logged (snd (doHttp env (r\<lparr>apiKey := k2\<rparr>)))
    \<and> logged (snd (doHttp env (r\<lparr>apiKey := k1\<rparr>)))
        = (if debug r \<and> sent (snd (doHttp env (r\<lparr>apiKey := k1\<rparr>))) \<noteq> [] then
             [debug_record env (fst (doHttp env (r\<lparr>apiKey := k1\<rparr>))) (req_method r)
                (baseURL r @ path r @ ''?'' @ Values_Encode (QueryEscape env) (params r))]
           else [])
    \<and> length (sent (snd (doHttp env (r\<lparr>apiKey := k1\<rparr>)))) \<le> 1"
proof -
  have same: "logged (snd (doHttp env (r\<lparr>apiKey := k1\<rparr>)))
                = logged (snd (doHttp env (r\<lparr>apiKey := k2\<rparr>)))"
    using assms(3) doHttp_sent_key[OF assms(1,2), of env r] by (simp add: doHttp_logged)
  have one: "logged (snd (doHttp env (r\<lparr>apiKey := k1\<rparr>)))
        = (if debug r \<and> sent (snd (doHttp env (r\<lparr>apiKey := k1\<rparr>))) \<noteq> [] then
             [debug_record env (fst (doHttp env (r\<lparr>apiKey := k1\<rparr>))) (req_method r)
                (baseURL r @ path r @ ''?'' @ Values_Encode (QueryEscape env) (params r))]
           else [])"
    by (simp add: doHttp_logged)
  from same one doHttp_sent_at_most_one[of env "r\<lparr>apiKey := k1\<rparr>"]
  show ?thesis by (intro conjI)
qed


theorem debug_record_independent_of_api_key_witness:
  "''secret'' \<noteq> [] \<and> ''other'' \<noteq> []
   \<and> fst (doHttp ex_env ((newCockpitReq (ex_defaults (ex_client 200 ''[]'')))
             \<lparr>req_method := ''GET'', path := ''/content/items/posts'', apiKey := ''secret''\<rparr>))
     = fst (doHttp ex_env ((newCockpitReq (ex_defaults (ex_client 200 ''[]'')))
             \<lparr>req_method := ''GET'', path := ''/content/items/posts'', apiKey := ''other''\<rparr>))
   \<and> logged (snd (doHttp ex_env ((newCockpitReq (ex_defaults (ex_client 200 ''[]'')))
             \<lparr>req_method := ''GET'', path := ''/content/items/posts'', apiKey := ''secret''\<rparr>)))
     = [''[Cockpit][200 OK] GET https://x/api/content/items/posts? | []'' @ [CHR 0x0A]]
   \<and> logged (snd (doHttp ex_env ((newCockpitReq (ex_defaults (ex_client 200 ''[]'')))
             \<lparr>req_method := ''GET'', path := ''/content/items/posts'', apiKey := ''other''\<rparr>)))
     = [''[Cockpit][200 OK] GET https://x/api/content/items/posts? | []'' @ [CHR 0x0A]]"
proof -
  let ?r = "(newCockpitReq (ex_defaults (ex_client 200 ''[]'')) :: string cockpitReq)
              \<lparr>req_method := ''GET'', path := ''/content/items/posts''\<rparr>"
  have k1: "''secret'' \<noteq> []" and k2: "''other'' \<noteq> []" by simp_all
  have res: "fst (doHttp ex_env (?r\<lparr>apiKey := ''secret''\<rparr>))
               = fst (doHttp ex_env (?r\<lparr>apiKey := ''other''\<rparr>))"
    by (simp add: doHttp_def ex_env_def ex_defaults_def ex_client_def newCockpitReq_def
          Let_def)
  have i200: "Itoa 200 = ''200''" by (simp add: Itoa_def FormatUint.simps digit_def)
  have l1: "logged (snd (doHttp ex_env (?r\<lparr>apiKey := ''secret''\<rparr>)))
              = [''[Cockpit][200 OK] GET https://x/api/content/items/posts? | []''
                 @ [CHR 0x0A]]"
    by (simp add: doHttp_def ex_env_def ex_defaults_def ex_client_def newCockpitReq_def
          Let_def i200 ex_StatusText_def Values_Encode_def Values_pairs_def)
  from debug_record_independent_of_api_key [OF k1 k2 res] l1
  have l2: "logged (snd (doHttp ex_env (?r\<lparr>apiKey := ''other''\<rparr>)))
              = [''[Cockpit][200 OK] GET https://x/api/content/items/posts? | []''
                 @ [CHR 0x0A]]"
    by simp
  from k1 k2 res l1 l2 show ?thesis by (intro conjI)
qed

text \<open>
  The claim as stated, that the record never contains the API key and is the same for two
  runs that differ only in the key, fails: the record holds the response body as it came,
  and a server that names the rejected key in its answer puts the key into the record.
\<close>

theorem debug_record_api_key_counterexample:
  "logged (snd (doHttp ex_env ((newCockpitReq (ex_defaults ex_echo_client))
             \<lparr>req_method := ''GET'', path := ''/content/items/posts'', apiKey := ''secret''\<rparr>)))
     = [''[Cockpit][401 Unauthorized] GET https://x/api/content/items/posts? | ''
        @ ''invalid api key: secret'' @ [CHR 0x0A]]
   \<and> logged (snd (doHttp ex_env ((newCockpitReq (ex_defaults ex_echo_client))
             \<lparr>req_method := ''GET'', path := ''/content/items/posts'', apiKey := ''other''\<rparr>)))
     = [''[Cockpit][401 Unauthorized] GET https://x/api/content/items/posts? | ''
        @ ''invalid api key: other'' @ [CHR 0x0A]]
   \<and> logged (snd (doHttp ex_env ((newCockpitReq (ex_defaults ex_echo_client))
             \<lparr>req_method := ''GET'', path := ''/content/items/posts'', apiKey := ''secret''\<rparr>)))
     \<noteq> logged (snd (doHttp ex_env ((newCockpitReq (ex_defaults ex_echo_client))
             \<lparr>req_method := ''GET'', path := ''/content/items/posts'', apiKey := ''other''\<rparr>)))"
proof -
  have i401: "Itoa 401 = ''401''" by (simp add: Itoa_def FormatUint.simps digit_def)
  show ?thesis
    by (simp add: doHttp_def ex_env_def ex_defaults_def ex_echo_client_def newCockpitReq_def
          Let_def i401 ex_StatusText_def Values_Encode_def Values_pairs_def)
qed

section \<open>Listing items\<close>

lemma exported_Has_skip:
  assumes "opt \<in> exported_options" and "opt r = (None, r')"
  shows "Values_Has (params r') ''skip''
           = (Values_Has (params r) ''skip'' \<or> (\<exists>n. opt = WithSkip n))"
proof (cases "\<exists>n. opt = WithSkip n")
  case True
  then obtain n where "opt = WithSkip n" ..
  with assms(2) show ?thesis
    by (auto simp: WithSkip_def Values_Has_Set split: if_splits)
next
  case False
  with assms have "Values_Has (params r') ''skip'' = Values_Has (params r) ''skip''"
    by (auto simp: exported_options_def WithHttpClient_def WithBaseURL_def WithApiKey_def
          WithDebugMode_def WithResizeMode_def WithWidth_def WithHeight_def WithQuality_def
          WithMime_def WithLocale_def WithFields_def WithFilter_def WithSort_def WithLimit_def
          WithPopulate_def Let_def Values_Has_Set split: if_splits)
  with False show ?thesis by simp
qed

lemma exported_Has_limit:
  assumes "opt \<in> exported_options" and "opt r = (None, r')"
  shows "Values_Has (params r') ''limit''
           = (Values_Has (params r) ''limit'' \<or> (\<exists>n. opt = WithLimit n))"
proof (cases "\<exists>n. opt = WithLimit n")
  case True
  then obtain n where "opt = WithLimit n" ..
  with assms(2) show ?thesis
    by (auto simp: WithLimit_def Values_Has_Set split: if_splits)
next
  case False
  with assms have "Values_Has (params r') ''limit'' = Values_Has (params r) ''limit''"
    by (auto simp: exported_options_def WithHttpClient_def WithBaseURL_def WithApiKey_def
          WithDebugMode_def WithResizeMode_def WithWidth_def WithHeight_def WithQuality_def
          WithMime_def WithLocale_def WithFields_def WithFilter_def WithSort_def WithSkip_def
          WithPopulate_def Let_def Values_Has_Set split: if_splits)
  with False show ?thesis by simp
qed

lemma applyOptions_Has_skip:
  "set opts \<subseteq> exported_options \<Longrightarrow> applyOptions r opts = (None, r') \<Longrightarrow>
   Values_Has (params r') ''skip''
     = (Values_Has (params r) ''skip'' \<or> (\<exists>n. WithSkip n \<in> set opts))"
proof (induction opts arbitrary: r)
  case Nil
  then show ?case by simp
next
  case (Cons opt opts)
  obtain e1 r1 where o: "opt r = (e1, r1)" by (cases "opt r")
  with Cons.prems(2) have e1: "e1 = None" and rest: "applyOptions r1 opts = (None, r')"
    by (auto split: option.splits)
  from Cons.prems(1) have ex: "opt \<in> exported_options" and exs: "set opts \<subseteq> exported_options"
    by simp_all
  from exported_Has_skip[OF ex o[unfolded e1]] Cons.IH[OF exs rest]
  show ?case by auto
qed

lemma applyOptions_Has_limit:
  "set opts \<subseteq> exported_options \<Longrightarrow> applyOptions r opts = (None, r') \<Longrightarrow>
   Values_Has (params r') ''limit''
     = (Values_Has (params r) ''limit'' \<or> (\<exists>n. WithLimit n \<in> set opts))"
proof (induction opts arbitrary: r)
  case Nil
  then show ?case by simp
next
  case (Cons opt opts)
  obtain e1 r1 where o: "opt r = (e1, r1)" by (cases "opt r")
  with Cons.prems(2) have e1: "e1 = None" and rest: "applyOptions r1 opts = (None, r')"
    by (auto split: option.splits)
  from Cons.prems(1) have ex: "opt \<in> exported_options" and exs: "set opts \<subseteq> exported_options"
    by simp_all
  from exported_Has_limit[OF ex o[unfolded e1]] Cons.IH[OF exs rest]
  show ?case by auto
qed

text \<open>
  Claim C1. \<^verbatim>\<open>GetItems\<close> chooses how to decode from the request the options produced, before
  the call: when the request has both the \<^verbatim>\<open>skip\<close> and the \<^verbatim>\<open>limit\<close> parameter, a 200 response
  is decoded into \<^verbatim>\<open>Items[T]\<close> (data and total); otherwise it is decoded as a list, which is
  returned as the data of an \<^verbatim>\<open>Items[T]\<close> whose total is zero. With exported options, the
  request has both parameters exactly when \<^verbatim>\<open>WithSkip\<close> and \<^verbatim>\<open>WithLimit\<close> are both among them.
\<close>

theorem GetItems_decode_shape:
  assumes "applyOptions ((newCockpitReq d)\<lparr>req_method := ''GET'',
                                             path := ''/content/items/'' @ model\<rparr>) opts
             = (None, r)" (is "applyOptions ?r0 _ = _")
    and "doHttp env r = (DoOk resp, fx)" and "StatusCode resp = 200"
  shows "GetItems env d decode_Items decode_slice model opts
           = (if Values_Has (params r) ''skip'' \<and> Values_Has (params r) ''limit''
              then (decode_Items (RespBody resp), fx)
              else (map_sum id (\<lambda>xs. \<lparr>Items_Data = xs, Meta_Total = 0\<rparr>)
                      (decode_slice (RespBody resp)), fx))
    \<and> (set opts \<subseteq> exported_options \<longrightarrow>
          (Values_Has (params r) ''skip'' \<and> Values_Has (params r) ''limit'')
            = ((\<exists>n. WithSkip n \<in> set opts) \<and> (\<exists>n. WithLimit n \<in> set opts)))"
proof -
  have shape: "GetItems env d decode_Items decode_slice model opts
           = (if Values_Has (params r) ''skip'' \<and> Values_Has (params r) ''limit''
              then (decode_Items (RespBody resp), fx)
              else (map_sum id (\<lambda>xs. \<lparr>Items_Data = xs, Meta_Total = 0\<rparr>)
                      (decode_slice (RespBody resp)), fx))"
    using assms by (simp add: GetItems_def run_def split: sum.splits)
  have opts: "set opts \<subseteq> exported_options \<longrightarrow>
          (Values_Has (params r) ''skip'' \<and> Values_Has (params r) ''limit'')
            = ((\<exists>n. WithSkip n \<in> set opts) \<and> (\<exists>n. WithLimit n \<in> set opts))"
  proof
    assume ex: "set opts \<subseteq> exported_options"
    have empty: "\<not> Values_Has (params ?r0) k" for k
      by (simp add: newCockpitReq_def Values_Has_def)
    from applyOptions_Has_skip[OF ex assms(1)] applyOptions_Has_limit[OF ex assms(1)] empty
    show "(Values_Has (params r) ''skip'' \<and> Values_Has (params r) ''limit'')
            = ((\<exists>n. WithSkip n \<in> set opts) \<and> (\<exists>n. WithLimit n \<in> set opts))"
      by simp
  qed
  from shape opts show ?thesis by (rule conjI)
qed


theorem GetItems_decode_shape_witness:
  \<open>applyOptions ((newCockpitReq (ex_defaults (ex_client 200
                     ''{"data":[1,2],"meta":{"total":42}}'')) :: string cockpitReq)
                   \<lparr>req_method := ''GET'', path := ''/content/items/'' @ ''posts''\<rparr>)
     [WithLimit 10, WithSkip 0]
     = (None, (newCockpitReq (ex_defaults (ex_client 200
                     ''{"data":[1,2],"meta":{"total":42}}'')))
                \<lparr>req_method := ''GET'', path := ''/content/items/'' @ ''posts'',
                 params := [(''limit'', [''10'']), (''skip'', [''0''])]\<rparr>)
   \<and> fst (GetItems ex_env (ex_defaults (ex_client 200 ''{"data":[1,2],"meta":{"total":42}}''))
             ex_decode_Items ex_decode_slice ''posts'' [WithLimit 10, WithSkip 0])
     = Inr \<lparr>Items_Data = [1, 2], Meta_Total = 42\<rparr>
   \<and> applyOptions ((newCockpitReq (ex_defaults (ex_client 200 ''[1,2]'')) :: string cockpitReq)
                   \<lparr>req_method := ''GET'', path := ''/content/items/'' @ ''posts''\<rparr>)
     [WithLimit 10]
     = (None, (newCockpitReq (ex_defaults (ex_client 200 ''[1,2]'')))
                \<lparr>req_method := ''GET'', path := ''/content/items/'' @ ''posts'',
                 params := [(''limit'', [''10''])]\<rparr>)
   \<and> fst (GetItems ex_env (ex_defaults (ex_client 200 ''[1,2]''))
             ex_decode_Items ex_decode_slice ''posts'' [WithLimit 10])
     = Inr \<lparr>Items_Data = [1, 2], Meta_Total = 0\<rparr>\<close>
proof -
  let ?paged = \<open>''{"data":[1,2],"meta":{"total":42}}''\<close>
  let ?dP = "ex_defaults (ex_client 200 ?paged)"
  let ?dL = "ex_defaults (ex_client 200 ''[1,2]'')"
  let ?rP = "(newCockpitReq ?dP :: string cockpitReq)
               \<lparr>req_method := ''GET'', path := ''/content/items/'' @ ''posts'',
                params := [(''limit'', [''10'']), (''skip'', [''0''])]\<rparr>"
  let ?rL = "(newCockpitReq ?dL :: string cockpitReq)
               \<lparr>req_method := ''GET'', path := ''/content/items/'' @ ''posts'',
                params := [(''limit'', [''10''])]\<rparr>"
  have i10: "Itoa 10 = ''10''" and i0: "Itoa 0 = ''0''"
    by (simp_all add: Itoa_def FormatUint.simps digit_def)
  have aP: "applyOptions ((newCockpitReq ?dP :: string cockpitReq)
                \<lparr>req_method := ''GET'', path := ''/content/items/'' @ ''posts''\<rparr>)
              [WithLimit 10, WithSkip 0] = (None, ?rP)"
    by (simp add: WithLimit_def WithSkip_def i10 i0 newCockpitReq_def)
  have aL: "applyOptions ((newCockpitReq ?dL :: string cockpitReq)
                \<lparr>req_method := ''GET'', path := ''/content/items/'' @ ''posts''\<rparr>)
              [WithLimit 10] = (None, ?rL)"
    by (simp add: WithLimit_def i10 newCockpitReq_def)
  have dP: "doHttp ex_env ?rP
              = (DoOk \<lparr>StatusCode = 200, RespBody = ?paged\<rparr>, snd (doHttp ex_env ?rP))"
    by (simp add: doHttp_def ex_env_def ex_defaults_def ex_client_def newCockpitReq_def
          Let_def)
  have dL: "doHttp ex_env ?rL
              = (DoOk \<lparr>StatusCode = 200, RespBody = ''[1,2]''\<rparr>, snd (doHttp ex_env ?rL))"
    by (simp add: doHttp_def ex_env_def ex_defaults_def ex_client_def newCockpitReq_def
          Let_def)
  have ok: "StatusCode \<lparr>StatusCode = 200, RespBody = b\<rparr> = 200" for b by simp
  have gP: "fst (GetItems ex_env ?dP ex_decode_Items ex_decode_slice ''posts''
                   [WithLimit 10, WithSkip 0])
              = Inr \<lparr>Items_Data = [1, 2], Meta_Total = 42\<rparr>"
    using GetItems_decode_shape [OF aP dP ok, of ex_decode_Items ex_decode_slice]
    by (simp add: Values_Has_def ex_decode_Items_def)
  have gL: "fst (GetItems ex_env ?dL ex_decode_Items ex_decode_slice ''posts'' [WithLimit 10])
              = Inr \<lparr>Items_Data = [1, 2], Meta_Total = 0\<rparr>"
    using GetItems_decode_shape [OF aL dL ok, of ex_decode_Items ex_decode_slice]
    by (simp add: Values_Has_def ex_decode_slice_def)
  from aP gP aL gL show ?thesis by (intro conjI)
qed

section \<open>Upserting an item\<close>

lemma applyOptions_exported_body:
  "set opts \<subseteq> exported_options \<Longrightarrow> applyOptions r opts = (e, r') \<Longrightarrow>
   body r' = body r \<and> req_method r' = req_method r"
proof (induction opts arbitrary: r)
  case Nil
  then show ?case by simp
next
  case (Cons opt opts)
  obtain e1 r1 where o: "opt r = (e1, r1)" by (cases "opt r")
  from Cons.prems(1) have ex: "opt \<in> exported_options" and exs: "set opts \<subseteq> exported_options"
    by simp_all
  have keep: "body r1 = body r \<and> req_method r1 = req_method r"
    using exported_preserves(1,2)[OF ex o] by simp
  show ?case
  proof (cases e1)
    case None
    with o Cons.prems(2) have "applyOptions r1 opts = (e, r')" by simp
    from Cons.IH[OF exs this] keep show ?thesis by simp
  next
    case (Some err)
    with o Cons.prems(2) have "r' = r1" by simp
    with keep show ?thesis by simp
  qed
qed

lemma doHttp_sent_body:
  assumes "req \<in> set (sent (snd (doHttp env r)))"
  shows "Method req = req_method r
    \<and> (case body r of None \<Rightarrow> Body req = [] | Some w \<Rightarrow> Encoder_Encode env w = Inr (Body req))"
  using assms
  by (auto simp: doHttp_def no_effects_def Let_def
        split: option.splits sum.splits prod.splits if_splits)

lemma run_effects: "snd (run env r target) = snd (doHttp env r)"
  by (simp add: run_def split: prod.splits do_result.splits option.splits sum.splits)

lemma UpsertItem_effects:
  "snd (UpsertItem env d zero decode model data opts)
     = (case applyOptions ((newCockpitReq d)\<lparr>req_method := ''POST'',
                                              path := ''/content/item/'' @ model,
                                              body := Some (dataWrapper data)\<rparr>) opts of
          (Some err, r) \<Rightarrow> no_effects
        | (None, r) \<Rightarrow> snd (doHttp env r))"
proof -
  have "snd (case run env r (Some decode) of
               (Inl err, fx) \<Rightarrow> (Inl err, fx)
             | (Inr out, fx) \<Rightarrow> (Inr (case out of None \<Rightarrow> zero | Some v \<Rightarrow> v), fx))
          = snd (doHttp env r)" for r
    using run_effects[of env r "Some decode"]
    by (cases "run env r (Some decode)") (auto split: sum.splits)
  note inner = this
  obtain e r where ap: "applyOptions ((newCockpitReq d)\<lparr>req_method := ''POST'',
                                              path := ''/content/item/'' @ model,
                                              body := Some (dataWrapper data)\<rparr>) opts = (e, r)"
    by (cases "applyOptions ((newCockpitReq d)\<lparr>req_method := ''POST'',
                                              path := ''/content/item/'' @ model,
                                              body := Some (dataWrapper data)\<rparr>) opts")
  show ?thesis
    unfolding UpsertItem_def ap by (cases e) (simp_all add: inner)
qed

text \<open>
  Claim C2, amended. Every request \<^verbatim>\<open>UpsertItem\<close> sends is a POST whose body is the JSON object
  with the single member \<^verbatim>\<open>data\<close> holding the encoding of the caller's data, followed by the
  newline that \<^verbatim>\<open>json.Encoder.Encode\<close> writes after a value.
\<close>

theorem UpsertItem_sends_data_envelope:
  \<open>set opts \<subseteq> exported_options \<Longrightarrow> Marshal env data = Inr s \<Longrightarrow>
   \<forall>req \<in> set (sent (snd (UpsertItem env d zero decode model data opts))).
      Method req = ''POST'' \<and> Body req = ''{"data":'' @ s @ ''}'' @ [CHR 0x0A]\<close>
proof
  fix req
  assume ex: "set opts \<subseteq> exported_options" and m: "Marshal env data = Inr s"
    and req: "req \<in> set (sent (snd (UpsertItem env d zero decode model data opts)))"
  let ?r0 = "(newCockpitReq d)\<lparr>req_method := ''POST'', path := ''/content/item/'' @ model,
                                body := Some (dataWrapper data)\<rparr>"
  obtain e r where ap: "applyOptions ?r0 opts = (e, r)" by (cases "applyOptions ?r0 opts")
  from applyOptions_exported_body[OF ex ap]
  have b: "body r = Some (dataWrapper data)" and mt: "req_method r = ''POST''" by simp_all
  from req ap have e: "e = None" and sent: "req \<in> set (sent (snd (doHttp env r)))"
    by (auto simp: UpsertItem_effects no_effects_def split: option.splits)
  from doHttp_sent_body[OF sent] b mt m
  show \<open>Method req = ''POST'' \<and> Body req = ''{"data":'' @ s @ ''}'' @ [CHR 0x0A]\<close>
    by (simp add: Encoder_Encode_def)
qed

theorem UpsertItem_sends_data_envelope_witness:
  \<open>set [WithLocale ''en'' :: string optionFn] \<subseteq> exported_options
   \<and> Marshal ex_env ''{"title":"A"}'' = Inr ''{"title":"A"}''
   \<and> sent (snd (UpsertItem ex_env (ex_defaults (ex_client 200 ''{}'')) () ex_decode_unit
                  ''posts'' ''{"title":"A"}'' [WithLocale ''en'']))
     = [\<lparr>Method = ''POST'', URL = ''https://x/api/content/item/posts?locale=en'',
         Header = [(''Api-Key'', ''secret''), (''Content-Type'', ''application/json'')],
         Body = ''{"data":{"title":"A"}}'' @ [CHR 0x0A]\<rparr>]\<close>
proof -
  let ?call = \<open>UpsertItem ex_env (ex_defaults (ex_client 200 ''{}'')) () ex_decode_unit
                  ''posts'' ''{"title":"A"}'' [WithLocale ''en'']\<close>
  have ex: "set [WithLocale ''en'' :: string optionFn] \<subseteq> exported_options"
    by (simp add: exported_options_def)
  have m: \<open>Marshal ex_env ''{"title":"A"}'' = Inr ''{"title":"A"}''\<close>
    by (simp add: ex_env_def)
  have enc: "Values_Encode (\<lambda>s. s) [(''locale'', [''en''])] = ''locale=en''"
    by (simp add: Values_Encode_def Values_pairs_def)
  have shape: \<open>\<exists>b. sent (snd ?call)
     = [\<lparr>Method = ''POST'', URL = ''https://x/api/content/item/posts?locale=en'',
         Header = [(''Api-Key'', ''secret''), (''Content-Type'', ''application/json'')],
         Body = b\<rparr>]\<close>
    by (simp add: UpsertItem_effects WithLocale_def newCockpitReq_def ex_defaults_def
          doHttp_def ex_env_def ex_client_def Encoder_Encode_def Let_def enc)
  then obtain b where b: \<open>sent (snd ?call)
     = [\<lparr>Method = ''POST'', URL = ''https://x/api/content/item/posts?locale=en'',
         Header = [(''Api-Key'', ''secret''), (''Content-Type'', ''application/json'')],
         Body = b\<rparr>]\<close> ..
  from UpsertItem_sends_data_envelope [OF ex m, of "ex_defaults (ex_client 200 ''{}'')" "()"
         ex_decode_unit "''posts''"] b
  have \<open>b = ''{"data":{"title":"A"}}'' @ [CHR 0x0A]\<close> by simp
  with ex m b show ?thesis by simp
qed

text \<open>
  The claim as stated, that the body for the data \<^verbatim>\<open>{"title":"A"}\<close> is exactly
  \<^verbatim>\<open>{"data":{"title":"A"}}\<close>, fails: the body sent ends with a newline.
\<close>

theorem UpsertItem_body_counterexample:
  \<open>map Body (sent (snd (UpsertItem ex_env (ex_defaults (ex_client 200 ''{}'')) () ex_decode_unit
                          ''posts'' ''{"title":"A"}'' [])))
     = [''{"data":{"title":"A"}}'' @ [CHR 0x0A]]
   \<and> map Body (sent (snd (UpsertItem ex_env (ex_defaults (ex_client 200 ''{}'')) ()
                            ex_decode_unit ''posts'' ''{"title":"A"}'' [])))
     \<noteq> [''{"data":{"title":"A"}}'']\<close>
  by (simp add: UpsertItem_effects newCockpitReq_def ex_defaults_def doHttp_def ex_env_def
        ex_client_def Encoder_Encode_def Let_def)

section \<open>The body of a state-changing request\<close>

text \<open>
  Claim C6, amended. In the first snapshot, with an API key and a base URL, \<^verbatim>\<open>doHttp\<close> fails
  with \<^verbatim>\<open>body is required for upserting an item\<close>, sending and logging nothing, when the
  method is POST and no body was given. A request of any other method, such as DELETE, is
  sent without a body, and a body that was given as a string is sent as it is, the empty
  string included. In the second snapshot \<^verbatim>\<open>doHttp\<close> makes no such test, a request without a
  body is sent with an empty one, and the request of \<^verbatim>\<open>UpsertItem\<close> always carries the wrapper
  of the caller's data, whatever exported options are applied.
\<close>

theorem post_body_required_when_absent:
  assumes "apiKey_1 r \<noteq> []" and "baseURL_1 r \<noteq> []"
  shows "(method_1 r = ''POST'' \<and> body_1 r = None \<longrightarrow>
            doHttp_1 env r
              = (Some (DoErr (Errorf ''body is required for upserting an item'')), no_effects))
    \<and> (method_1 r \<noteq> ''POST'' \<and> body_1 r = None \<and> httpClient_1 r = Some c
        \<and> NewRequestError env (method_1 r)
             (baseURL_1 r @ path_1 r @ ''?'' @ Values_Encode (QueryEscape env) (params_1 r))
           = None \<longrightarrow>
            sent (snd (doHttp_1 env r))
              = [\<lparr>Method = method_1 r,
                  URL = baseURL_1 r @ path_1 r @ ''?''
                        @ Values_Encode (QueryEscape env) (params_1 r),
                  Header = [(''Api-Key'', apiKey_1 r)], Body = []\<rparr>])
    \<and> (body_1 r = Some (Str s) \<and> httpClient_1 r = Some c
        \<and> NewRequestError env (method_1 r)
             (baseURL_1 r @ path_1 r @ ''?'' @ Values_Encode (QueryEscape env) (params_1 r))
           = None \<longrightarrow>
            sent (snd (doHttp_1 env r))
              = [\<lparr>Method = method_1 r,
                  URL = baseURL_1 r @ path_1 r @ ''?''
                        @ Values_Encode (QueryEscape env) (params_1 r),
                  Header = [(''Api-Key'', apiKey_1 r)], Body = s\<rparr>])
    \<and> (apiKey r2 \<noteq> [] \<and> baseURL r2 \<noteq> [] \<and> body r2 = None \<and> httpClient r2 = Some c
        \<and> NewRequestError env (req_method r2)
             (baseURL r2 @ path r2 @ ''?'' @ Values_Encode (QueryEscape env) (params r2))
           = None \<longrightarrow>
            sent (snd (doHttp env r2))
              = [\<lparr>Method = req_method r2,
                  URL = baseURL r2 @ path r2 @ ''?''
                        @ Values_Encode (QueryEscape env) (params r2),
                  Header = [(''Api-Key'', apiKey r2), (''Content-Type'', ''application/json'')],
                  Body = []\<rparr>])
    \<and> (set opts \<subseteq> exported_options
        \<and> applyOptions ((newCockpitReq d)\<lparr>req_method := ''POST'',
                                            path := ''/content/item/'' @ model,
                                            body := Some (dataWrapper data)\<rparr>) opts = (e, r3)
          \<longrightarrow> body r3 = Some (dataWrapper data))"
proof -
  have a: "method_1 r = ''POST'' \<and> body_1 r = None \<longrightarrow>
            doHttp_1 env r
              = (Some (DoErr (Errorf ''body is required for upserting an item'')), no_effects)"
    using assms by (simp add: doHttp_1_def getBodyReader_def)
  have b: "method_1 r \<noteq> ''POST'' \<and> body_1 r = None \<and> httpClient_1 r = Some c
        \<and> NewRequestError env (method_1 r)
             (baseURL_1 r @ path_1 r @ ''?'' @ Values_Encode (QueryEscape env) (params_1 r))
           = None \<longrightarrow>
            sent (snd (doHttp_1 env r))
              = [\<lparr>Method = method_1 r,
                  URL = baseURL_1 r @ path_1 r @ ''?''
                        @ Values_Encode (QueryEscape env) (params_1 r),
                  Header = [(''Api-Key'', apiKey_1 r)], Body = []\<rparr>]"
    using assms by (simp add: doHttp_1_def getBodyReader_def Let_def split: prod.splits)
  have c: "body_1 r = Some (Str s) \<and> httpClient_1 r = Some c
        \<and> NewRequestError env (method_1 r)
             (baseURL_1 r @ path_1 r @ ''?'' @ Values_Encode (QueryEscape env) (params_1 r))
           = None \<longrightarrow>
            sent (snd (doHttp_1 env r))
              = [\<lparr>Method = method_1 r,
                  URL = baseURL_1 r @ path_1 r @ ''?''
                        @ Values_Encode (QueryEscape env) (params_1 r),
                  Header = [(''Api-Key'', apiKey_1 r)], Body = s\<rparr>]"
    using assms by (simp add: doHttp_1_def getBodyReader_def Let_def split: prod.splits)
  have d: "apiKey r2 \<noteq> [] \<and> baseURL r2 \<noteq> [] \<and> body r2 = None \<and> httpClient r2 = Some c
        \<and> NewRequestError env (req_method r2)
             (baseURL r2 @ path r2 @ ''?'' @ Values_Encode (QueryEscape env) (params r2))
           = None \<longrightarrow>
            sent (snd (doHttp env r2))
              = [\<lparr>Method = req_method r2,
                  URL = baseURL r2 @ path r2 @ ''?''
                        @ Values_Encode (QueryEscape env) (params r2),
                  Header = [(''Api-Key'', apiKey r2), (''Content-Type'', ''application/json'')],
                  Body = []\<rparr>]"
    by (simp add: doHttp_def Let_def split: prod.splits)
  have e: "set opts \<subseteq> exported_options
        \<and> applyOptions ((newCockpitReq d)\<lparr>req_method := ''POST'',
                                            path := ''/content/item/'' @ model,
                                            body := Some (dataWrapper data)\<rparr>) opts = (e, r3)
          \<longrightarrow> body r3 = Some (dataWrapper data)"
    using applyOptions_exported_body[of opts _ e r3] by auto
  from a b c d e show ?thesis by (intro conjI)
qed

theorem post_body_required_when_absent_witness:
  "apiKey_1 (ex_req_1 None ''POST'') \<noteq> [] \<and> baseURL_1 (ex_req_1 None ''POST'') \<noteq> []
   \<and> method_1 (ex_req_1 None ''POST'') = ''POST'' \<and> body_1 (ex_req_1 None ''POST'') = None
   \<and> doHttp_1 ex_env (ex_req_1 None ''POST'')
     = (Some (DoErr (Errorf ''body is required for upserting an item'')), no_effects)
   \<and> sent (snd (doHttp_1 ex_env (ex_req_1 None ''DELETE'')))
     = [\<lparr>Method = ''DELETE'', URL = ''https://x/api/content/item/posts?'',
         Header = [(''Api-Key'', ''secret'')], Body = []\<rparr>]"
proof -
  have k: "apiKey_1 (ex_req_1 None m) \<noteq> []" and u: "baseURL_1 (ex_req_1 None m) \<noteq> []" for m
    by (simp_all add: ex_req_1_def)
  have p: "method_1 (ex_req_1 None ''POST'') = ''POST'' \<and> body_1 (ex_req_1 None ''POST'') = None"
    by (simp add: ex_req_1_def)
  have enc: "Values_Encode (QueryEscape ex_env) (params_1 (ex_req_1 None m)) = []" for m
    by (simp add: ex_req_1_def Values_Encode_def Values_pairs_def)
  have post: "doHttp_1 ex_env (ex_req_1 None ''POST'')
     = (Some (DoErr (Errorf ''body is required for upserting an item'')), no_effects)"
    using post_body_required_when_absent
            [where r = "ex_req_1 None ''POST''" and env = ex_env, OF k u, THEN conjunct1] p
    by (rule mp)
  have del: "method_1 (ex_req_1 None ''DELETE'') \<noteq> ''POST''
      \<and> body_1 (ex_req_1 None ''DELETE'') = None
      \<and> httpClient_1 (ex_req_1 None ''DELETE'') = Some (ex_client 200 ''{}'')
      \<and> NewRequestError ex_env (method_1 (ex_req_1 None ''DELETE''))
           (baseURL_1 (ex_req_1 None ''DELETE'') @ path_1 (ex_req_1 None ''DELETE'') @ ''?''
            @ Values_Encode (QueryEscape ex_env) (params_1 (ex_req_1 None ''DELETE''))) = None"
    by (simp add: ex_req_1_def ex_env_def)
  have "sent (snd (doHttp_1 ex_env (ex_req_1 None ''DELETE'')))
     = [\<lparr>Method = method_1 (ex_req_1 None ''DELETE''),
         URL = baseURL_1 (ex_req_1 None ''DELETE'') @ path_1 (ex_req_1 None ''DELETE'') @ ''?''
               @ Values_Encode (QueryEscape ex_env) (params_1 (ex_req_1 None ''DELETE'')),
         Header = [(''Api-Key'', apiKey_1 (ex_req_1 None ''DELETE''))], Body = []\<rparr>]"
    using post_body_required_when_absent
            [where r = "ex_req_1 None ''DELETE''" and env = ex_env
               and c = "ex_client 200 ''{}''", OF k u, THEN conjunct2, THEN conjunct1] del
    by (rule mp)
  then have sent: "sent (snd (doHttp_1 ex_env (ex_req_1 None ''DELETE'')))
     = [\<lparr>Method = ''DELETE'', URL = ''https://x/api/content/item/posts?'',
         Header = [(''Api-Key'', ''secret'')], Body = []\<rparr>]"
    by (simp add: enc) (simp add: ex_req_1_def)
  from k u p post sent show ?thesis by simp
qed

text \<open>
  The claim as stated, that a POST with an empty body fails before any HTTP call, fails in
  both snapshots: the first sends a POST whose body is the empty string, the second sends a
  POST that has no body at all.
\<close>

theorem post_empty_body_counterexample:
  "doHttp_1 ex_env (ex_req_1 (Some (Str [])) ''POST'')
     = (Some (DoOk \<lparr>StatusCode = 200, RespBody = ''{}''\<rparr>),
        \<lparr>sent = [\<lparr>Method = ''POST'', URL = ''https://x/api/content/item/posts?'',
                  Header = [(''Api-Key'', ''secret'')], Body = []\<rparr>],
         logged = []\<rparr>)
   \<and> sent (snd (doHttp ex_env
        ((newCockpitReq (ex_defaults (ex_client 200 ''{}'')))
           \<lparr>req_method := ''POST'', path := ''/content/item/posts''\<rparr>)))
     = [\<lparr>Method = ''POST'', URL = ''https://x/api/content/item/posts?'',
         Header = [(''Api-Key'', ''secret''), (''Content-Type'', ''application/json'')],
         Body = []\<rparr>]"
  by (simp add: doHttp_1_def doHttp_def getBodyReader_def ex_req_1_def ex_env_def ex_client_def
        ex_defaults_def newCockpitReq_def Values_Encode_def Values_pairs_def Let_def)

end
